theory Spec2Isabelle
  imports Complex_Main "HOL-Library.Word"
begin

section \<open>Exchange client: error classification and retry loop\<close>

text \<open>
  Source: \<^verbatim>\<open>orderly-types.ts\<close> (enum \<^verbatim>\<open>OrderlyErrorCode\<close>), \<^verbatim>\<open>orderly-errors.ts\<close>
  (\<^verbatim>\<open>ERROR_CODE_MAP\<close>, \<^verbatim>\<open>createOrderlyError\<close>, \<^verbatim>\<open>isRetryableError\<close>,
  \<^verbatim>\<open>isClockSkewError\<close>) and \<^verbatim>\<open>orderly-api.ts\<close> (\<^verbatim>\<open>OrderlyApiClient.request\<close>).
  Venue error codes are JavaScript numbers holding integers: \<open>int\<close>.
\<close>

definition UNKNOWN :: int where "UNKNOWN = - 1000"

definition INVALID_SIGNATURE :: int where "INVALID_SIGNATURE = - 1001"

definition UNAUTHORIZED :: int where "UNAUTHORIZED = - 1002"

definition TOO_MANY_REQUEST :: int where "TOO_MANY_REQUEST = - 1003"

definition UNKNOWN_PARAM :: int where "UNKNOWN_PARAM = - 1004"

definition INVALID_PARAM :: int where "INVALID_PARAM = - 1005"

definition RESOURCE_NOT_FOUND :: int where "RESOURCE_NOT_FOUND = - 1006"

definition DUPLICATE_REQUEST :: int where "DUPLICATE_REQUEST = - 1007"

definition QUANTITY_TOO_HIGH :: int where "QUANTITY_TOO_HIGH = - 1008"

definition CAN_NOT_WITHDRAWAL :: int where "CAN_NOT_WITHDRAWAL = - 1009"

definition RPC_NOT_CONNECT :: int where "RPC_NOT_CONNECT = - 1011"

definition RPC_REJECT :: int where "RPC_REJECT = - 1012"

definition RISK_TOO_HIGH :: int where "RISK_TOO_HIGH = - 1101"

definition MIN_NOTIONAL :: int where "MIN_NOTIONAL = - 1102"

definition PRICE_FILTER :: int where "PRICE_FILTER = - 1103"

definition SIZE_FILTER :: int where "SIZE_FILTER = - 1104"

definition PERCENTAGE_FILTER :: int where "PERCENTAGE_FILTER = - 1105"

definition LIQUIDATION_REQUEST_RATIO_TOO_SMALL :: int where
  "LIQUIDATION_REQUEST_RATIO_TOO_SMALL = - 1201"

definition LIQUIDATION_STATUS_ERROR :: int where "LIQUIDATION_STATUS_ERROR = - 1202"

lemmas OrderlyErrorCode_defs =
  UNKNOWN_def INVALID_SIGNATURE_def UNAUTHORIZED_def TOO_MANY_REQUEST_def UNKNOWN_PARAM_def
  INVALID_PARAM_def RESOURCE_NOT_FOUND_def DUPLICATE_REQUEST_def QUANTITY_TOO_HIGH_def
  CAN_NOT_WITHDRAWAL_def RPC_NOT_CONNECT_def RPC_REJECT_def RISK_TOO_HIGH_def MIN_NOTIONAL_def
  PRICE_FILTER_def SIZE_FILTER_def PERCENTAGE_FILTER_def
  LIQUIDATION_REQUEST_RATIO_TOO_SMALL_def LIQUIDATION_STATUS_ERROR_def

record ErrorCodeInfo =
  info_code :: int
  httpStatus :: nat
  name :: string
  description :: string

text \<open>\<^verbatim>\<open>ERROR_CODE_MAP\<close>: a lookup by code, \<open>None\<close> where the JavaScript object has no entry.\<close>

definition ERROR_CODE_MAP :: "int \<Rightarrow> ErrorCodeInfo option" where
  "ERROR_CODE_MAP = map_of
    [(- 1000, \<lparr>info_code = UNKNOWN, httpStatus = 500, name = ''UNKNOWN'',
        description = ''Unknown error or data doesn't exist''\<rparr>),
     (- 1001, \<lparr>info_code = INVALID_SIGNATURE, httpStatus = 401, name = ''INVALID_SIGNATURE'',
        description = ''API key/secret in wrong format''\<rparr>),
     (- 1002, \<lparr>info_code = UNAUTHORIZED, httpStatus = 401, name = ''UNAUTHORIZED'',
        description = ''Invalid, expired, revoked credentials or lack permissions''\<rparr>),
     (- 1003, \<lparr>info_code = TOO_MANY_REQUEST, httpStatus = 429, name = ''TOO_MANY_REQUEST'',
        description = ''Rate limit exceeded''\<rparr>),
     (- 1004, \<lparr>info_code = UNKNOWN_PARAM, httpStatus = 400, name = ''UNKNOWN_PARAM'',
        description = ''Unknown parameter sent''\<rparr>),
     (- 1005, \<lparr>info_code = INVALID_PARAM, httpStatus = 400, name = ''INVALID_PARAM'',
        description = ''Improperly formatted parameters''\<rparr>),
     (- 1006, \<lparr>info_code = RESOURCE_NOT_FOUND, httpStatus = 400, name = ''RESOURCE_NOT_FOUND'',
        description = ''Data not found in server''\<rparr>),
     (- 1007, \<lparr>info_code = DUPLICATE_REQUEST, httpStatus = 409, name = ''DUPLICATE_REQUEST'',
        description = ''Data already exists or duplicate request''\<rparr>),
     (- 1008, \<lparr>info_code = QUANTITY_TOO_HIGH, httpStatus = 400, name = ''QUANTITY_TOO_HIGH'',
        description = ''Settlement quantity exceeds limits''\<rparr>),
     (- 1009, \<lparr>info_code = CAN_NOT_WITHDRAWAL, httpStatus = 400, name = ''CAN_NOT_WITHDRAWAL'',
        description = ''Withdrawal blocked; arrears must be settled''\<rparr>),
     (- 1011, \<lparr>info_code = RPC_NOT_CONNECT, httpStatus = 400, name = ''RPC_NOT_CONNECT'',
        description = ''Internal network failure''\<rparr>),
     (- 1012, \<lparr>info_code = RPC_REJECT, httpStatus = 400, name = ''RPC_REJECT'',
        description = ''Order rejected (liquidation or internal error)''\<rparr>),
     (- 1101, \<lparr>info_code = RISK_TOO_HIGH, httpStatus = 400, name = ''RISK_TOO_HIGH'',
        description = ''Excessive risk from order size/leverage/margin''\<rparr>),
     (- 1102, \<lparr>info_code = MIN_NOTIONAL, httpStatus = 400, name = ''MIN_NOTIONAL'',
        description = ''Order value (price * size) too small''\<rparr>),
     (- 1103, \<lparr>info_code = PRICE_FILTER, httpStatus = 400, name = ''PRICE_FILTER'',
        description = ''Price violates scope/range requirements''\<rparr>),
     (- 1104, \<lparr>info_code = SIZE_FILTER, httpStatus = 400, name = ''SIZE_FILTER'',
        description = ''Quantity doesn't conform to step-size''\<rparr>),
     (- 1105, \<lparr>info_code = PERCENTAGE_FILTER, httpStatus = 400, name = ''PERCENTAGE_FILTER'',
        description = ''Price deviates excessively from mid-market''\<rparr>),
     (- 1201, \<lparr>info_code = LIQUIDATION_REQUEST_RATIO_TOO_SMALL, httpStatus = 400,
        name = ''LIQUIDATION_REQUEST_RATIO_TOO_SMALL'',
        description = ''Liquidation ratio requirements unmet''\<rparr>),
     (- 1202, \<lparr>info_code = LIQUIDATION_STATUS_ERROR, httpStatus = 400,
        name = ''LIQUIDATION_STATUS_ERROR'',
        description = ''Liquidation unnecessary or invalid ID''\<rparr>)]"

text \<open>
  The body of a failed HTTP response, \<^verbatim>\<open>axiosError.response.data\<close>: either field may be
  missing (\<open>None\<close> is JavaScript's \<^verbatim>\<open>undefined\<close>).
\<close>

record ErrorData =
  ed_code :: "int option"
  ed_message :: "string option"

text \<open>
  Everything \<^verbatim>\<open>request\<close> can throw. \<open>OrderlyApiError code message httpStatus\<close> is the class
  of \<^verbatim>\<open>orderly-errors.ts\<close>; its \<^verbatim>\<open>message\<close> is the constructor's parameter property, which
  TypeScript assigns after the \<^verbatim>\<open>super\<close> call. \<open>PlainError\<close> is \<^verbatim>\<open>new Error(msg)\<close>,
  \<open>AxiosError\<close> the raw error of the HTTP library, \<open>OtherError\<close> any other thrown value, and
  \<open>UndefinedError\<close> the initial value of \<^verbatim>\<open>lastError\<close>.
\<close>

datatype api_error =
    OrderlyApiError int string "nat option"
  | PlainError string
  | AxiosError "ErrorData option"
  | OtherError string
  | UndefinedError

fun error_message :: "api_error \<Rightarrow> string" where
  "error_message (OrderlyApiError c m h) = m"
| "error_message (PlainError m) = m"
| "error_message (AxiosError d) = ''''"
| "error_message (OtherError m) = m"
| "error_message UndefinedError = ''''"

definition createOrderlyError :: "int \<Rightarrow> string \<Rightarrow> api_error" where
  "createOrderlyError code message =
     (case ERROR_CODE_MAP code of
        None \<Rightarrow> OrderlyApiError code message None
      | Some errorInfo \<Rightarrow>
          OrderlyApiError code
            (name errorInfo @ '': '' @ message @ ''. '' @ description errorInfo)
            (Some (httpStatus errorInfo)))"

definition nonRetryableCodes :: "int list" where
  "nonRetryableCodes =
     [INVALID_SIGNATURE, UNAUTHORIZED, INVALID_PARAM, UNKNOWN_PARAM, DUPLICATE_REQUEST]"

definition isRetryableError :: "int \<Rightarrow> bool" where
  "isRetryableError code = (code \<notin> set nonRetryableCodes)"

text \<open>
  \<^verbatim>\<open>String.prototype.toLowerCase\<close> on the ASCII letters (venue messages are ASCII), and
  \<^verbatim>\<open>String.prototype.includes\<close>: the needle occurs as a contiguous run.
\<close>

definition lower_char :: "char \<Rightarrow> char" where
  "lower_char c =
     (case map_of (zip ''ABCDEFGHIJKLMNOPQRSTUVWXYZ'' ''abcdefghijklmnopqrstuvwxyz'') c of
        Some l \<Rightarrow> l
      | None \<Rightarrow> c)"

definition toLowerCase :: "string \<Rightarrow> string" where
  "toLowerCase s = map lower_char s"

fun includes_str :: "string \<Rightarrow> string \<Rightarrow> bool" where
  "includes_str [] needle = (needle = [])"
| "includes_str (c # cs) needle =
     (take (length needle) (c # cs) = needle \<or> includes_str cs needle)"

definition isClockSkewError :: "int \<Rightarrow> string \<Rightarrow> bool" where
  "isClockSkewError code message =
     (code = UNAUTHORIZED \<and>
      (includes_str (toLowerCase message) ''timestamp'' \<or>
       includes_str (toLowerCase message) ''expired''))"

text \<open>
  What one HTTP attempt can produce: a response whose body is not \<^verbatim>\<open>{success: false}\<close>
  (\<open>Ok_data\<close>, the payload \<^verbatim>\<open>response.data.data\<close>), a response whose body is
  \<^verbatim>\<open>{success: false, code, message}\<close> (\<open>Ok_failure\<close>), a failure of the HTTP library with or
  without a response body (\<open>Axios_failure\<close>), and any other exception of the attempt
  (\<open>Other_failure\<close>).
\<close>

datatype 'd attempt_outcome =
    Ok_data 'd
  | Ok_failure int string
  | Axios_failure "ErrorData option"
  | Other_failure string

text \<open>
  The \<^verbatim>\<open>catch\<close> block of one attempt either rethrows (\<open>Throw\<close>) or falls through to the
  backoff with the new value of \<^verbatim>\<open>lastError\<close> (\<open>Continue\<close>). JavaScript truthiness of
  \<^verbatim>\<open>errorData.code && errorData.message\<close>: a number other than 0 and a non-empty string.
\<close>

datatype catch_result = Throw api_error | Continue api_error

definition handle_axios :: "ErrorData option \<Rightarrow> catch_result" where
  "handle_axios d =
     (case d of
        None \<Rightarrow> Continue (AxiosError None)
      | Some errorData \<Rightarrow>
          (case (ed_code errorData, ed_message errorData) of
             (Some code, Some message) \<Rightarrow>
               if code \<noteq> 0 \<and> message \<noteq> [] then
                 (let orderlyError = createOrderlyError code message in
                  if \<not> isRetryableError code then Throw orderlyError
                  else if isClockSkewError code message then
                    Throw (PlainError (error_message orderlyError @
                      ''. Check your system clock and sync with NTP.''))
                  else Continue orderlyError)
               else Continue (AxiosError (Some errorData))
           | _ \<Rightarrow> Continue (AxiosError (Some errorData))))"

definition backoff_delay :: "nat \<Rightarrow> nat" where
  "backoff_delay attempt = min (1000 * 2 ^ attempt) 10000"

text \<open>
  The retry loop \<^verbatim>\<open>for (attempt = 0; attempt <= maxRetries; attempt++)\<close>. \<open>responses n\<close> is
  what the \<open>n\<close>-th attempt meets; \<open>run_attempt\<close> is the \<^verbatim>\<open>try\<close> body followed by the
  \<^verbatim>\<open>catch\<close> block up to the backoff, a thrown \<^verbatim>\<open>createOrderlyError\<close> of the \<^verbatim>\<open>try\<close> body
  not being an axios error. The result is what \<^verbatim>\<open>request\<close> returns (\<open>Inr\<close>) or throws
  (\<open>Inl\<close>), together with the delays slept, in order.
\<close>

definition run_attempt :: "'d attempt_outcome \<Rightarrow> catch_result + 'd" where
  "run_attempt outcome =
     (case outcome of
        Ok_data d \<Rightarrow> Inr d
      | Ok_failure code message \<Rightarrow> Inl (Continue (createOrderlyError code message))
      | Axios_failure d \<Rightarrow> Inl (handle_axios d)
      | Other_failure m \<Rightarrow> Inl (Continue (OtherError m)))"

function request_loop ::
  "nat \<Rightarrow> (nat \<Rightarrow> 'd attempt_outcome) \<Rightarrow> nat \<Rightarrow> api_error \<Rightarrow> nat list
    \<Rightarrow> (api_error + 'd) \<times> nat list" where
  "request_loop maxRetries responses attempt lastError slept =
     (if attempt \<le> maxRetries then
        (case run_attempt (responses attempt) of
           Inr d \<Rightarrow> (Inr d, slept)
         | Inl (Throw e) \<Rightarrow> (Inl e, slept)
         | Inl (Continue e) \<Rightarrow>
             request_loop maxRetries responses (Suc attempt) e
               (if attempt < maxRetries then slept @ [backoff_delay attempt] else slept))
      else (Inl lastError, slept))"
  by pat_completeness auto
termination
  by (relation "measure (\<lambda>(maxRetries, responses, attempt, lastError, slept).
        Suc maxRetries - attempt)") auto

declare request_loop.simps [simp del]

text \<open>\<^verbatim>\<open>this.maxRetries = config.maxRetries || 3\<close>: a missing or zero setting becomes 3.\<close>

definition config_maxRetries :: "nat option \<Rightarrow> nat" where
  "config_maxRetries m = (case m of None \<Rightarrow> 3 | Some n \<Rightarrow> if n = 0 then 3 else n)"

definition request :: "nat \<Rightarrow> (nat \<Rightarrow> 'd attempt_outcome) \<Rightarrow> (api_error + 'd) \<times> nat list" where
  "request maxRetries responses = request_loop maxRetries responses 0 UndefinedError []"

text \<open>
  An attempt that the loop retries on account of the venue's error code: the HTTP library
  failed with a response body carrying a (truthy) code and message, and the code is
  retryable.
\<close>

definition retryable_failure :: "'d attempt_outcome \<Rightarrow> bool" where
  "retryable_failure outcome =
     (case outcome of
        Axios_failure (Some errorData) \<Rightarrow>
          (case (ed_code errorData, ed_message errorData) of
             (Some code, Some message) \<Rightarrow> code \<noteq> 0 \<and> message \<noteq> [] \<and> isRetryableError code
           | _ \<Rightarrow> False)
      | _ \<Rightarrow> False)"

section \<open>Deposit settlement pipeline\<close>

text \<open>
  Source: \<^verbatim>\<open>models/deposit.ts\<close>, \<^verbatim>\<open>services/db.service.ts\<close> (deposit, user and platform
  wallet operations), \<^verbatim>\<open>services/blockchain.service.ts\<close> (\<^verbatim>\<open>scanForDeposits\<close>,
  \<^verbatim>\<open>getTransaction\<close>, \<^verbatim>\<open>getCurrentBlock\<close>) and \<^verbatim>\<open>workers/deposit-monitor.ts\<close>
  (\<^verbatim>\<open>scanForNewDeposits\<close>, \<^verbatim>\<open>processPendingDeposits\<close>).

  Amounts are JavaScript numbers; the model takes them as exact rationals, so rounding of
  doubles is outside it. Block numbers and counters are integers. The timestamps of the
  records (\<^verbatim>\<open>detectedAt\<close>, \<^verbatim>\<open>confirmedAt\<close>, \<^verbatim>\<open>creditedAt\<close>) and \<^verbatim>\<open>twitterHandle\<close> play no
  part in the control flow and are left out.
\<close>

datatype DepositStatus = pending | confirmed | credited | failed

text \<open>
  A document of the \<^verbatim>\<open>deposits\<close> collection. \<open>dep_id\<close> is the document id that Firestore
  generates on \<^verbatim>\<open>add\<close>; the model numbers the documents in creation order.
\<close>

record Deposit =
  dep_id :: nat
  userId :: string
  txHash :: string
  amount :: rat
  fromAddress :: string
  toAddress :: string
  blockNumber :: int
  confirmations :: int
  requiredConfirmations :: int
  status :: DepositStatus
  orderlyConfirmed :: bool
  errorMessage :: "string option"
  retryCount :: int

record PlatformWallet =
  wallet_id :: string
  address :: string
  lastScannedBlock :: int

record User =
  internalBalance :: rat
  totalDeposits :: rat
  accountId :: string
  encryptedOrderlyPrivateKey :: string

text \<open>
  The persistent store: the platform wallet document for the network (if configured), the
  deposit documents, and the user documents by id.
\<close>

record Store =
  platformWallet :: "PlatformWallet option"
  deposits :: "Deposit list"
  users :: "string \<rightharpoonup> User"

text \<open>
  Every call that leaves the process and can throw. The environment of one tick says, for
  each of them, whether it throws (\<open>Some message\<close>) or not.
\<close>

datatype ext_call =
    GetPlatformWallet
  | GetDepositByTxHash string
  | CreateDeposit string
  | UpdatePlatformWalletBlock
  | GetPendingDeposits
  | UpdateDepositStatus nat DepositStatus
  | GetUserById string
  | CreditUserDeposit string
  | Decrypt string
  | CreditAccountBalance string
  | GetBlockNumber
  | GetTransactionReceipt string
  | QueryFilter
  | Decimals

text \<open>A \<^verbatim>\<open>Transfer(from, to, value)\<close> log of the token contract.\<close>

record TransferEvent =
  transactionHash :: string
  ev_from :: string
  ev_to :: string
  ev_value :: nat
  ev_blockNumber :: int

record Env =
  fails :: "ext_call \<Rightarrow> string option"
  blockHeight :: int
  transferEvents :: "TransferEvent list"
  tokenDecimals :: nat
  receipts :: "string \<rightharpoonup> int"

definition CONFIRMATIONS_REQUIRED :: int where
  "CONFIRMATIONS_REQUIRED = 12"

subsection \<open>Blockchain service\<close>

definition getCurrentBlock :: "Env \<Rightarrow> string + int" where
  "getCurrentBlock env =
     (case fails env GetBlockNumber of Some m \<Rightarrow> Inl m | None \<Rightarrow> Inr (blockHeight env))"

text \<open>
  \<^verbatim>\<open>getTransaction\<close> returns the receipt (here its block number), or \<^verbatim>\<open>null\<close> when the
  lookup throws or finds nothing.
\<close>

definition getTransaction :: "Env \<Rightarrow> string \<Rightarrow> int option" where
  "getTransaction env h =
     (case fails env (GetTransactionReceipt h) of Some m \<Rightarrow> None | None \<Rightarrow> receipts env h)"

record ScannedTransfer =
  st_txHash :: string
  st_from :: string
  st_amount :: rat
  st_blockNumber :: int

text \<open>
  \<^verbatim>\<open>scanForDeposits(platformAddress, fromBlock, toBlock?)\<close>. \<^verbatim>\<open>toBlock || getCurrentBlock()\<close>
  asks the node when \<^verbatim>\<open>toBlock\<close> is missing or 0. The event query returns the logs to the
  platform address in the inclusive block range; \<^verbatim>\<open>formatUnits\<close> divides by
  \<open>10 ^ decimals\<close>. Any exception ends in the \<^verbatim>\<open>catch\<close> block, which returns \<^verbatim>\<open>[]\<close>.
\<close>

definition queryFilter :: "Env \<Rightarrow> string \<Rightarrow> int \<Rightarrow> int \<Rightarrow> TransferEvent list" where
  "queryFilter env platformAddress fromBlock toBlock =
     filter (\<lambda>e. ev_to e = platformAddress \<and> fromBlock \<le> ev_blockNumber e \<and>
                 ev_blockNumber e \<le> toBlock) (transferEvents env)"

definition toScanned :: "nat \<Rightarrow> TransferEvent \<Rightarrow> ScannedTransfer" where
  "toScanned decimals event =
     \<lparr>st_txHash = transactionHash event, st_from = ev_from event,
      st_amount = of_nat (ev_value event) / 10 ^ decimals,
      st_blockNumber = ev_blockNumber event\<rparr>"

definition scanForDeposits ::
  "Env \<Rightarrow> string \<Rightarrow> int \<Rightarrow> int option \<Rightarrow> ScannedTransfer list" where
  "scanForDeposits env platformAddress fromBlock toBlock =
     (case (case toBlock of
              Some t \<Rightarrow> if t \<noteq> 0 then Inr t else getCurrentBlock env
            | None \<Rightarrow> getCurrentBlock env) of
        Inl m \<Rightarrow> []
      | Inr currentBlock \<Rightarrow>
          (case fails env QueryFilter of
             Some m \<Rightarrow> []
           | None \<Rightarrow>
               (case fails env Decimals of
                  Some m \<Rightarrow> []
                | None \<Rightarrow>
                    map (toScanned (tokenDecimals env))
                      (queryFilter env platformAddress fromBlock currentBlock))))"

subsection \<open>Database service\<close>

definition getDepositByTxHash :: "Store \<Rightarrow> string \<Rightarrow> Deposit option" where
  "getDepositByTxHash store h = find (\<lambda>d. txHash d = h) (deposits store)"

definition createDeposit :: "Store \<Rightarrow> Deposit \<Rightarrow> Store" where
  "createDeposit store depositData =
     store\<lparr>deposits := deposits store @ [depositData\<lparr>dep_id := length (deposits store)\<rparr>]\<rparr>"

definition getPendingDeposits :: "Store \<Rightarrow> Deposit list" where
  "getPendingDeposits store =
     filter (\<lambda>d. (status d = pending \<or> status d = confirmed) \<and> orderlyConfirmed d = False)
       (deposits store)"

text \<open>
  \<^verbatim>\<open>updateDepositStatus(depositId, status, updateData)\<close> writes \<^verbatim>\<open>{status, ...updateData}\<close> to the
  document; \<open>upd\<close> is the effect of \<^verbatim>\<open>updateData\<close> on the record.
\<close>

definition updateDepositStatus ::
  "Store \<Rightarrow> nat \<Rightarrow> DepositStatus \<Rightarrow> (Deposit \<Rightarrow> Deposit) \<Rightarrow> Store" where
  "updateDepositStatus store depositId st upd =
     store\<lparr>deposits :=
       map (\<lambda>d. if dep_id d = depositId then upd (d\<lparr>status := st\<rparr>) else d) (deposits store)\<rparr>"

definition creditUserDeposit :: "Store \<Rightarrow> string \<Rightarrow> rat \<Rightarrow> string + Store" where
  "creditUserDeposit store uid amt =
     (case users store uid of
        None \<Rightarrow> Inl ''User not found''
      | Some user \<Rightarrow>
          Inr (store\<lparr>users := (users store)(uid \<mapsto>
                 user\<lparr>internalBalance := internalBalance user + amt,
                      totalDeposits := totalDeposits user + amt\<rparr>)\<rparr>))"

definition updatePlatformWalletBlock :: "Store \<Rightarrow> int \<Rightarrow> Store" where
  "updatePlatformWalletBlock store blockNo =
     store\<lparr>platformWallet :=
       map_option (\<lambda>w. w\<lparr>lastScannedBlock := blockNo\<rparr>) (platformWallet store)\<rparr>"

subsection \<open>Scan tick\<close>

text \<open>
  The body of the loop over the scanned transfers, with its own \<^verbatim>\<open>try\<close>/\<^verbatim>\<open>catch\<close>: an
  exception of the lookup or of the creation is logged and the loop goes on.
\<close>

definition recordDeposit :: "Env \<Rightarrow> int \<Rightarrow> string \<Rightarrow> Store \<Rightarrow> ScannedTransfer \<Rightarrow> Store" where
  "recordDeposit env currentBlock platformAddress store deposit =
     (case fails env (GetDepositByTxHash (st_txHash deposit)) of
        Some m \<Rightarrow> store
      | None \<Rightarrow>
          (case getDepositByTxHash store (st_txHash deposit) of
             Some existing \<Rightarrow> store
           | None \<Rightarrow>
               if st_amount deposit < 10 then store
               else
                 (let confs = currentBlock - st_blockNumber deposit;
                      st = (if confs \<ge> CONFIRMATIONS_REQUIRED then confirmed else pending)
                  in case fails env (CreateDeposit (st_txHash deposit)) of
                       Some m \<Rightarrow> store
                     | None \<Rightarrow>
                         createDeposit store
                           \<lparr>dep_id = 0, userId = [], txHash = st_txHash deposit,
                            amount = st_amount deposit, fromAddress = st_from deposit,
                            toAddress = platformAddress,
                            blockNumber = st_blockNumber deposit, confirmations = confs,
                            requiredConfirmations = CONFIRMATIONS_REQUIRED, status = st,
                            orderlyConfirmed = False, errorMessage = None,
                            retryCount = 0\<rparr>)))"

text \<open>
  \<^verbatim>\<open>scanForNewDeposits\<close>. The result is the store after the tick and the block range handed
  to \<^verbatim>\<open>scanForDeposits\<close>, if the tick got that far.
\<close>

record ScanTick =
  store_after :: Store
  scanned_range :: "(int \<times> int) option"

definition scanForNewDeposits :: "Env \<Rightarrow> Store \<Rightarrow> ScanTick" where
  "scanForNewDeposits env store =
     (case fails env GetPlatformWallet of
        Some m \<Rightarrow> \<lparr>store_after = store, scanned_range = None\<rparr>
      | None \<Rightarrow>
          (case platformWallet store of
             None \<Rightarrow> \<lparr>store_after = store, scanned_range = None\<rparr>
           | Some wallet \<Rightarrow>
               (case getCurrentBlock env of
                  Inl m \<Rightarrow> \<lparr>store_after = store, scanned_range = None\<rparr>
                | Inr currentBlock \<Rightarrow>
                    (let fromBlock = lastScannedBlock wallet + 1;
                         toBlock = currentBlock
                     in if fromBlock > toBlock
                        then \<lparr>store_after = store, scanned_range = None\<rparr>
                        else
                          (let found = scanForDeposits env (address wallet) fromBlock
                                         (Some toBlock);
                               store1 = foldl (recordDeposit env currentBlock (address wallet))
                                          store found
                           in case fails env UpdatePlatformWalletBlock of
                                Some m \<Rightarrow> \<lparr>store_after = store1,
                                            scanned_range = Some (fromBlock, toBlock)\<rparr>
                              | None \<Rightarrow>
                                  \<lparr>store_after = updatePlatformWalletBlock store1 toBlock,
                                   scanned_range = Some (fromBlock, toBlock)\<rparr>)))))"

subsection \<open>Confirmation and crediting tick\<close>

text \<open>
  A database write that can throw: the store is unchanged when it does.
\<close>

definition tryUpdateDepositStatus ::
  "Env \<Rightarrow> Store \<Rightarrow> nat \<Rightarrow> DepositStatus \<Rightarrow> (Deposit \<Rightarrow> Deposit) \<Rightarrow> string + Store" where
  "tryUpdateDepositStatus env store depositId st upd =
     (case fails env (UpdateDepositStatus depositId st) of
        Some m \<Rightarrow> Inl m
      | None \<Rightarrow> Inr (updateDepositStatus store depositId st upd))"

text \<open>
  The inner \<^verbatim>\<open>try\<close> block of the crediting step. On an exception the result carries the
  message and the store as it stands at the point of the throw.
\<close>

definition creditDeposit :: "Env \<Rightarrow> Store \<Rightarrow> Deposit \<Rightarrow> (string \<times> Store) + Store" where
  "creditDeposit env store deposit =
     (case fails env (GetUserById (userId deposit)) of
        Some m \<Rightarrow> Inl (m, store)
      | None \<Rightarrow>
          (case users store (userId deposit) of
             None \<Rightarrow> Inl (''User not found'', store)
           | Some user \<Rightarrow>
               (case (case fails env (CreditUserDeposit (userId deposit)) of
                        Some m \<Rightarrow> Inl m
                      | None \<Rightarrow> creditUserDeposit store (userId deposit) (amount deposit)) of
                  Inl m \<Rightarrow> Inl (m, store)
                | Inr store1 \<Rightarrow>
                    (case fails env (Decrypt (encryptedOrderlyPrivateKey user)) of
                       Some m \<Rightarrow> Inl (m, store1)
                     | None \<Rightarrow>
                         (case fails env (CreditAccountBalance (accountId user)) of
                            Some m \<Rightarrow> Inl (m, store1)
                          | None \<Rightarrow>
                              (case tryUpdateDepositStatus env store1 (dep_id deposit) credited
                                      (\<lambda>d. d\<lparr>orderlyConfirmed := True\<rparr>) of
                                 Inl m \<Rightarrow> Inl (m, store1)
                               | Inr store2 \<Rightarrow> Inr store2))))))"

text \<open>
  The body of the loop of \<^verbatim>\<open>processPendingDeposits\<close> for one deposit read by
  \<^verbatim>\<open>getPendingDeposits\<close>; the state is the store and the alerts raised so far (deposit ids).
\<close>

definition processDeposit :: "Env \<Rightarrow> Store \<times> nat list \<Rightarrow> Deposit \<Rightarrow> Store \<times> nat list" where
  "processDeposit env state deposit =
     (let store = fst state; alerts = snd state in
      if userId deposit = [] then state
      else
        (case getTransaction env (txHash deposit) of
           None \<Rightarrow> state
         | Some txBlock \<Rightarrow>
             (case getCurrentBlock env of
                Inl m \<Rightarrow> state
              | Inr currentBlock \<Rightarrow>
                  (let confs = currentBlock - txBlock in
                   case (if confs \<noteq> confirmations deposit then
                           (if confs \<ge> requiredConfirmations deposit \<and> status deposit = pending
                            then tryUpdateDepositStatus env store (dep_id deposit) confirmed
                                   (\<lambda>d. d\<lparr>confirmations := confs\<rparr>)
                            else tryUpdateDepositStatus env store (dep_id deposit)
                                   (status deposit) (\<lambda>d. d\<lparr>confirmations := confs\<rparr>))
                         else Inr store) of
                     Inl m \<Rightarrow> state
                   | Inr store1 \<Rightarrow>
                       if confs \<ge> requiredConfirmations deposit \<and> \<not> orderlyConfirmed deposit
                       then
                         (case creditDeposit env store1 deposit of
                            Inr store2 \<Rightarrow> (store2, alerts)
                          | Inl (message, store2) \<Rightarrow>
                              (case tryUpdateDepositStatus env store2 (dep_id deposit) failed
                                      (\<lambda>d. d\<lparr>errorMessage := Some message,
                                              retryCount := retryCount deposit + 1\<rparr>) of
                                 Inl m \<Rightarrow> (store2, alerts)
                               | Inr store3 \<Rightarrow>
                                   (store3, if retryCount deposit \<ge> 3
                                            then alerts @ [dep_id deposit] else alerts)))
                       else (store1, alerts)))))"

definition processPendingDeposits :: "Env \<Rightarrow> Store \<Rightarrow> Store \<times> nat list" where
  "processPendingDeposits env store =
     (case fails env GetPendingDeposits of
        Some m \<Rightarrow> (store, [])
      | None \<Rightarrow> foldl (processDeposit env) (store, []) (getPendingDeposits store))"

subsection \<open>Outcome of a crediting step\<close>

text \<open>
  \<open>credited_user u amt\<close> is the user document after \<^verbatim>\<open>creditUserDeposit\<close>, and
  \<open>credit_applied s d s'\<close> says that the user documents of \<open>s'\<close> are those of \<open>s\<close> with the
  owner of \<open>d\<close> credited exactly once with the amount of \<open>d\<close>.
\<close>

definition credited_user :: "User \<Rightarrow> rat \<Rightarrow> User" where
  "credited_user u amt =
     u\<lparr>internalBalance := internalBalance u + amt, totalDeposits := totalDeposits u + amt\<rparr>"

definition credit_applied :: "Store \<Rightarrow> Deposit \<Rightarrow> Store \<Rightarrow> bool" where
  "credit_applied s d s' =
     (case users s (userId d) of
        None \<Rightarrow> False
      | Some u \<Rightarrow> users s' = (users s)(userId d \<mapsto> credited_user u (amount d)))"

section \<open>Typed-data registration message\<close>

text \<open>
  Source: \<^verbatim>\<open>orderly-client/orderly-wallet.ts\<close> (\<^verbatim>\<open>OFF_CHAIN_VERIFYING_CONTRACT\<close>,
  \<^verbatim>\<open>REGISTRATION_TYPES\<close>, \<^verbatim>\<open>OrderlyWallet.createDomain\<close>, \<^verbatim>\<open>OrderlyWallet.signRegistration\<close>) and
  \<^verbatim>\<open>wallet.service.ts\<close> (\<^verbatim>\<open>WalletService.signRegistrationMessage\<close>). Both hand a domain, a
  type table and a message to the typed-data signer of the wallet library; the model keeps
  the domain and the field list of the \<^verbatim>\<open>Registration\<close> type, in order.
\<close>

record TypedField =
  field_name :: string
  field_type :: string

record EIP712Domain =
  domain_name :: string
  domain_version :: string
  domain_chainId :: int
  verifyingContract :: string

definition OFF_CHAIN_VERIFYING_CONTRACT :: string where
  "OFF_CHAIN_VERIFYING_CONTRACT = ''0xCcCCccccCCCCcCCCCCCcCcCccCcCCCcCcccccccC''"

definition REGISTRATION_TYPES :: "TypedField list" where
  "REGISTRATION_TYPES =
     [\<lparr>field_name = ''brokerId'', field_type = ''string''\<rparr>,
      \<lparr>field_name = ''chainId'', field_type = ''uint256''\<rparr>,
      \<lparr>field_name = ''chainType'', field_type = ''string''\<rparr>,
      \<lparr>field_name = ''timestamp'', field_type = ''uint64''\<rparr>,
      \<lparr>field_name = ''registrationNonce'', field_type = ''uint64''\<rparr>]"

definition createDomain :: "int \<Rightarrow> string \<Rightarrow> EIP712Domain" where
  "createDomain chainId contract =
     \<lparr>domain_name = ''Orderly'', domain_version = ''1'', domain_chainId = chainId,
      verifyingContract = contract\<rparr>"

text \<open>
  What \<^verbatim>\<open>OrderlyWallet.signRegistration(brokerId, chainId, registrationNonce)\<close> passes to the
  signer as domain and types.
\<close>

definition signRegistration_domain :: "int \<Rightarrow> EIP712Domain" where
  "signRegistration_domain chainId = createDomain chainId OFF_CHAIN_VERIFYING_CONTRACT"

definition signRegistration_types :: "TypedField list" where
  "signRegistration_types = REGISTRATION_TYPES"

text \<open>What \<^verbatim>\<open>WalletService.signRegistrationMessage(privateKey, message)\<close> passes.\<close>

definition signRegistrationMessage_domain :: "int \<Rightarrow> EIP712Domain" where
  "signRegistrationMessage_domain message_chainId =
     \<lparr>domain_name = ''Orderly'', domain_version = ''1'', domain_chainId = message_chainId,
      verifyingContract = ''0xCcCCccccCCCCcCCCCCCcCcCccCcCCCcCcccccccC''\<rparr>"

definition signRegistrationMessage_types :: "TypedField list" where
  "signRegistrationMessage_types =
     [\<lparr>field_name = ''brokerId'', field_type = ''string''\<rparr>,
      \<lparr>field_name = ''chainId'', field_type = ''uint256''\<rparr>,
      \<lparr>field_name = ''timestamp'', field_type = ''uint64''\<rparr>,
      \<lparr>field_name = ''registrationNonce'', field_type = ''uint256''\<rparr>]"

text \<open>
  The schema in the words of the specification:
  \<^verbatim>\<open>brokerId:string, chainId:uint256, timestamp:uint64, registrationNonce:uint256\<close>, under the
  domain with name Orderly, version 1, the chain id and the off-chain verifying contract.
\<close>

definition Registration_schema_spec :: "TypedField list" where
  "Registration_schema_spec =
     map (\<lambda>(n, t). \<lparr>field_name = n, field_type = t\<rparr>)
       [(''brokerId'', ''string''), (''chainId'', ''uint256''), (''timestamp'', ''uint64''),
        (''registrationNonce'', ''uint256'')]"

definition Registration_domain_spec :: "int \<Rightarrow> EIP712Domain" where
  "Registration_domain_spec chainId =
     \<lparr>domain_name = ''Orderly'', domain_version = ''1'', domain_chainId = chainId,
      verifyingContract = OFF_CHAIN_VERIFYING_CONTRACT\<rparr>"

section \<open>Request signer\<close>

text \<open>
  Source: \<^verbatim>\<open>orderly-client/orderly-auth.ts\<close> (\<^verbatim>\<open>OrderlyAuth.constructCanonicalString\<close>,
  \<^verbatim>\<open>signMessage\<close>, \<^verbatim>\<open>validateTimestamp\<close>, \<^verbatim>\<open>generateAuthHeaders\<close>) and \<^verbatim>\<open>orderly-types.ts\<close>
  (\<^verbatim>\<open>SignaturePayload\<close>, \<^verbatim>\<open>OrderlyAuthHeaders\<close>).

  A JavaScript string is modelled by the string of its UTF-8 bytes, so that
  \<^verbatim>\<open>TextEncoder.encode\<close> reads the bytes off; concatenation, ASCII case mapping and substring
  search agree with the JavaScript operations on well-formed strings. Bytes are 8-bit words.
\<close>

type_synonym byte = "8 word"

definition TextEncoder_encode :: "string \<Rightarrow> byte list" where
  "TextEncoder_encode s = map (\<lambda>c. of_nat (of_char c)) s"

subsection \<open>Runtime functions the signer calls\<close>

text \<open>
  \<^verbatim>\<open>Buffer.toString('base64')\<close>: RFC 4648 base64 with padding.
\<close>

definition base64_alphabet :: string where
  "base64_alphabet = ''ABCDEFGHIJKLMNOPQRSTUVWXYZabcdefghijklmnopqrstuvwxyz0123456789+/''"

definition b64 :: "nat \<Rightarrow> char" where
  "b64 n = base64_alphabet ! n"

fun base64 :: "byte list \<Rightarrow> string" where
  "base64 (a # b # c # rest) =
     [b64 (unat a div 4), b64 (unat a mod 4 * 16 + unat b div 16),
      b64 (unat b mod 16 * 4 + unat c div 64), b64 (unat c mod 64)] @ base64 rest"
| "base64 [a, b] =
     [b64 (unat a div 4), b64 (unat a mod 4 * 16 + unat b div 16), b64 (unat b mod 16 * 4),
      CHR ''='']"
| "base64 [a] = [b64 (unat a div 4), b64 (unat a mod 4 * 16), CHR ''='', CHR ''='']"
| "base64 [] = []"

text \<open>
  \<^verbatim>\<open>Number.prototype.toString\<close> on an integer (below \<open>10 ^ 21\<close> in absolute value, where
  JavaScript still prints all digits): the decimal digits.
\<close>

definition digit_char :: "nat \<Rightarrow> char" where
  "digit_char n = ''0123456789'' ! n"

fun show_nat :: "nat \<Rightarrow> string" where
  "show_nat n = (if n < 10 then [digit_char n] else show_nat (n div 10) @ [digit_char (n mod 10)])"

declare show_nat.simps [simp del]

definition show_int :: "int \<Rightarrow> string" where
  "show_int i = (if i < 0 then CHR ''-'' # show_nat (nat (- i)) else show_nat (nat i))"

text \<open>
  JSON values, and \<^verbatim>\<open>JSON.stringify(value)\<close> called with one argument: no indentation and no
  space after a separator. Numbers are integers here. Inside a string the quotation mark,
  the backslash and the control characters below U+0020 are escaped; every other character
  is copied.
\<close>

datatype json =
    JNull
  | JBool bool
  | JNum int
  | JStr string
  | JArr "json list"
  | JObj "(string \<times> json) list"

definition hex_char :: "nat \<Rightarrow> char" where
  "hex_char n = ''0123456789abcdef'' ! n"

definition escape_char :: "char \<Rightarrow> string" where
  "escape_char c =
     (if c = CHR 0x22 then [CHR 0x5C, CHR 0x22]
      else if c = CHR 0x5C then [CHR 0x5C, CHR 0x5C]
      else if c = CHR 0x08 then [CHR 0x5C, CHR ''b'']
      else if c = CHR 0x09 then [CHR 0x5C, CHR ''t'']
      else if c = CHR 0x0A then [CHR 0x5C, CHR ''n'']
      else if c = CHR 0x0C then [CHR 0x5C, CHR ''f'']
      else if c = CHR 0x0D then [CHR 0x5C, CHR ''r'']
      else if (of_char c :: nat) < 32
        then [CHR 0x5C, CHR ''u'', CHR ''0'', CHR ''0'',
              hex_char (of_char c div 16), hex_char (of_char c mod 16)]
      else [c])"

definition quoteJSONString :: "string \<Rightarrow> string" where
  "quoteJSONString s = CHR 0x22 # concat (map escape_char s) @ [CHR 0x22]"

fun join_comma :: "string list \<Rightarrow> string" where
  "join_comma [] = []"
| "join_comma [x] = x"
| "join_comma (x # y # ys) = x @ CHR '','' # join_comma (y # ys)"

fun JSON_stringify :: "json \<Rightarrow> string" where
  "JSON_stringify JNull = ''null''"
| "JSON_stringify (JBool b) = (if b then ''true'' else ''false'')"
| "JSON_stringify (JNum n) = show_int n"
| "JSON_stringify (JStr s) = quoteJSONString s"
| "JSON_stringify (JArr xs) = CHR ''['' # join_comma (map JSON_stringify xs) @ '']''"
| "JSON_stringify (JObj kvs) =
     CHR ''{'' #
     join_comma (map (\<lambda>kv. quoteJSONString (fst kv) @ CHR '':'' # JSON_stringify (snd kv)) kvs)
     @ ''}''"

text \<open>JavaScript truthiness of a JSON value, as tested by \<^verbatim>\<open>body ? ... : ...\<close>.\<close>

fun truthy :: "json \<Rightarrow> bool" where
  "truthy JNull = False"
| "truthy (JBool b) = b"
| "truthy (JNum n) = (n \<noteq> 0)"
| "truthy (JStr s) = (s \<noteq> [])"
| "truthy (JArr xs) = True"
| "truthy (JObj kvs) = True"

subsection \<open>The signer\<close>

datatype HttpMethod = GET | POST | PUT | DELETE

text \<open>The method as it appears in a template string: the type's own string literals.\<close>

fun method_string :: "HttpMethod \<Rightarrow> string" where
  "method_string GET = ''GET''"
| "method_string POST = ''POST''"
| "method_string PUT = ''PUT''"
| "method_string DELETE = ''DELETE''"

record SignaturePayload =
  sp_timestamp :: int
  sp_method :: HttpMethod
  sp_path :: string
  sp_body :: "string option"

text \<open>
  \<^verbatim>\<open>`${timestamp}${method}${path}${body || ''}`\<close>: a missing or empty body string adds
  nothing.
\<close>

definition constructCanonicalString :: "SignaturePayload \<Rightarrow> string" where
  "constructCanonicalString payload =
     show_int (sp_timestamp payload) @ method_string (sp_method payload) @ sp_path payload @
     (case sp_body payload of None \<Rightarrow> [] | Some b \<Rightarrow> b)"

text \<open>
  \<^verbatim>\<open>signMessage\<close>. The Ed25519 signing function of the library is a parameter; its first
  argument stands for whatever entropy or state a signing call could draw on besides the
  message and the key. The base64 text is then rewritten: every \<^verbatim>\<open>+\<close> to \<^verbatim>\<open>-\<close>, every \<^verbatim>\<open>/\<close> to
  \<^verbatim>\<open>_\<close>, and the run of \<^verbatim>\<open>=\<close> at the end removed.
\<close>

type_synonym 'r ed25519 = "'r \<Rightarrow> byte list \<Rightarrow> byte list \<Rightarrow> byte list"

definition replace_all :: "char \<Rightarrow> char \<Rightarrow> string \<Rightarrow> string" where
  "replace_all c d s = map (\<lambda>x. if x = c then d else x) s"

definition strip_trailing_equals :: "string \<Rightarrow> string" where
  "strip_trailing_equals s = rev (dropWhile (\<lambda>c. c = CHR ''='') (rev s))"

definition signMessage :: "'r ed25519 \<Rightarrow> 'r \<Rightarrow> byte list \<Rightarrow> string \<Rightarrow> string" where
  "signMessage signAsync entropy privateKey message =
     (let messageBytes = TextEncoder_encode message;
          signatureBytes = signAsync entropy messageBytes privateKey;
          base64text = base64 signatureBytes
      in strip_trailing_equals
           (replace_all CHR ''/'' CHR ''_'' (replace_all CHR ''+'' CHR ''-'' base64text)))"

definition TIMESTAMP_WINDOW_MS :: int where
  "TIMESTAMP_WINDOW_MS = 300 * 1000"

text \<open>
  \<^verbatim>\<open>validateTimestamp\<close> reads the clock again (\<open>now\<close>) and throws when the timestamp is more
  than the window away from it.
\<close>

definition validateTimestamp :: "int \<Rightarrow> int \<Rightarrow> string + unit" where
  "validateTimestamp now ts =
     (let diff = \<bar>now - ts\<bar> in
      if diff > TIMESTAMP_WINDOW_MS
      then Inl (''Timestamp skew too large: '' @ show_int diff @ ''ms (max '' @
                show_int TIMESTAMP_WINDOW_MS @ ''ms). Local time may be incorrect.'')
      else Inr ())"

record OrderlyAuthHeaders =
  content_type :: string
  orderly_timestamp :: string
  orderly_account_id :: string
  orderly_key :: string
  orderly_signature :: string
  x_recv_window :: "string option"

record OrderlyAuth =
  auth_privateKey :: "byte list"
  auth_publicKey :: string
  auth_accountId :: string

text \<open>
  \<^verbatim>\<open>generateAuthHeaders(method, path, body?, recvWindow?)\<close>. \<open>clock\<close> and \<open>clock'\<close> are the two
  readings of \<^verbatim>\<open>Date.now()\<close>, the first being the timestamp. A body that is missing or falsy
  is not serialised, whatever the method.
\<close>

definition bodyString :: "json option \<Rightarrow> string option" where
  "bodyString body =
     (case body of None \<Rightarrow> None | Some j \<Rightarrow> if truthy j then Some (JSON_stringify j) else None)"

definition canonical_of :: "int \<Rightarrow> HttpMethod \<Rightarrow> string \<Rightarrow> json option \<Rightarrow> string" where
  "canonical_of ts m p body =
     constructCanonicalString
       \<lparr>sp_timestamp = ts, sp_method = m, sp_path = p, sp_body = bodyString body\<rparr>"

definition generateAuthHeaders ::
  "'r ed25519 \<Rightarrow> 'r \<Rightarrow> OrderlyAuth \<Rightarrow> int \<Rightarrow> int \<Rightarrow> HttpMethod \<Rightarrow> string \<Rightarrow> json option
    \<Rightarrow> int option \<Rightarrow> string + OrderlyAuthHeaders" where
  "generateAuthHeaders signAsync entropy auth clock clock' m p body recvWindow =
     (case validateTimestamp clock' clock of
        Inl e \<Rightarrow> Inl e
      | Inr u \<Rightarrow>
          (let canonical = canonical_of clock m p body;
               signature = signMessage signAsync entropy (auth_privateKey auth) canonical;
               contentType = (if m = GET \<or> m = DELETE
                              then ''application/x-www-form-urlencoded''
                              else ''application/json'')
           in Inr \<lparr>content_type = contentType, orderly_timestamp = show_int clock,
                   orderly_account_id = auth_accountId auth, orderly_key = auth_publicKey auth,
                   orderly_signature = signature,
                   x_recv_window =
                     (case recvWindow of
                        None \<Rightarrow> None
                      | Some w \<Rightarrow> if w \<noteq> 0 then Some (show_int w) else None)\<rparr>))"

text \<open>
  The encoding in the words of the specification: URL-safe base64 (RFC 4648, section 5)
  without padding.
\<close>

definition base64url_alphabet :: string where
  "base64url_alphabet = ''ABCDEFGHIJKLMNOPQRSTUVWXYZabcdefghijklmnopqrstuvwxyz0123456789-_''"

definition b64url :: "nat \<Rightarrow> char" where
  "b64url n = base64url_alphabet ! n"

fun base64url_unpadded :: "byte list \<Rightarrow> string" where
  "base64url_unpadded (a # b # c # rest) =
     [b64url (unat a div 4), b64url (unat a mod 4 * 16 + unat b div 16),
      b64url (unat b mod 16 * 4 + unat c div 64), b64url (unat c mod 64)]
     @ base64url_unpadded rest"
| "base64url_unpadded [a, b] =
     [b64url (unat a div 4), b64url (unat a mod 4 * 16 + unat b div 16),
      b64url (unat b mod 16 * 4)]"
| "base64url_unpadded [a] = [b64url (unat a div 4), b64url (unat a mod 4 * 16)]"
| "base64url_unpadded [] = []"

text \<open>All strings of a JSON value: string values and object keys.\<close>

fun json_strings :: "json \<Rightarrow> string list" where
  "json_strings JNull = []"
| "json_strings (JBool b) = []"
| "json_strings (JNum n) = []"
| "json_strings (JStr s) = [s]"
| "json_strings (JArr xs) = concat (map json_strings xs)"
| "json_strings (JObj kvs) = concat (map (\<lambda>kv. fst kv # json_strings (snd kv)) kvs)"

text \<open>The whitespace of JSON texts: space, tab, line feed, carriage return.\<close>

definition is_whitespace :: "char \<Rightarrow> bool" where
  "is_whitespace c = (c = CHR 0x20 \<or> c = CHR 0x09 \<or> c = CHR 0x0A \<or> c = CHR 0x0D)"

text \<open>What the two replacements of \<open>signMessage\<close> do to one character.\<close>

definition to_url :: "char \<Rightarrow> char" where
  "to_url x = (if (if x = CHR ''+'' then CHR ''-'' else x) = CHR ''/'' then CHR ''_''
               else (if x = CHR ''+'' then CHR ''-'' else x))"

section \<open>Encryption of key material at rest\<close>

text \<open>
  Source: \<^verbatim>\<open>services/encryption.service.ts\<close> (\<^verbatim>\<open>EncryptionService.encrypt\<close>, \<^verbatim>\<open>decrypt\<close>).

  The AES-256-GCM cipher of the runtime is a parameter: \<open>gcm_encrypt key iv plaintext\<close> gives
  the ciphertext and the authentication tag, \<open>gcm_decrypt key iv ciphertext tag\<close> the
  plaintext, or \<open>None\<close> when the cipher throws (the tag does not verify, or the tag or the
  nonce is unusable). The nonce that \<^verbatim>\<open>crypto.randomBytes(12)\<close> returns is an argument of
  \<open>encrypt\<close>.
\<close>

record AesGcm =
  gcm_encrypt :: "byte list \<Rightarrow> byte list \<Rightarrow> byte list \<Rightarrow> byte list \<times> byte list"
  gcm_decrypt :: "byte list \<Rightarrow> byte list \<Rightarrow> byte list \<Rightarrow> byte list \<Rightarrow> byte list option"

text \<open>
  What \<open>decrypt\<close> asks of the JavaScript runtime beyond the cipher. \<^verbatim>\<open>JSON.parse\<close> is a
  parameter (\<open>None\<close>: it throws); a parsed object lists each of its properties once. The
  other two fields stand for the parts of \<^verbatim>\<open>Buffer.from(value, 'base64')\<close> that are not
  written out below: \<open>Buffer_from_object\<close> for an array with an element that is not an
  integer from 0 to 255 and for an object with a \<^verbatim>\<open>valueOf\<close> or \<^verbatim>\<open>length\<close> property of its
  own (\<open>None\<close>: it throws), \<open>base64_decode_wide\<close> for base64 text with a character outside
  ASCII.
\<close>

record Runtime =
  JSON_parse :: "string \<Rightarrow> json option"
  Buffer_from_object :: "json \<Rightarrow> byte list option"
  base64_decode_wide :: "string \<Rightarrow> byte list"

text \<open>
  The base64 decoder of the runtime on ASCII text. It is lenient and never throws: a
  character of the alphabet, or \<^verbatim>\<open>-\<close> and \<^verbatim>\<open>_\<close> of the URL-safe alphabet, gives six bits; the
  first \<^verbatim>\<open>=\<close> ends the input; every other character (white space included) is skipped. Four
  sextets give three bytes; of a shorter last group, three sextets give two bytes, two give
  one and a single one gives none, so padding is not needed.
\<close>

fun index_of :: "'a list \<Rightarrow> 'a \<Rightarrow> nat" where
  "index_of [] c = 0"
| "index_of (x # xs) c = (if x = c then 0 else Suc (index_of xs c))"

definition b64_index :: "char \<Rightarrow> nat" where
  "b64_index c = index_of base64_alphabet c"

definition unbase64 :: "char \<Rightarrow> nat option" where
  "unbase64 c =
     (if c = CHR ''-'' then Some 62
      else if c = CHR ''_'' then Some 63
      else if c \<in> set base64_alphabet then Some (b64_index c)
      else None)"

fun base64_sextets :: "string \<Rightarrow> nat list" where
  "base64_sextets [] = []"
| "base64_sextets (c # cs) =
     (case unbase64 c of
        Some v \<Rightarrow> v # base64_sextets cs
      | None \<Rightarrow> if c = CHR ''='' then [] else base64_sextets cs)"

fun sextets_bytes :: "nat list \<Rightarrow> byte list" where
  "sextets_bytes (s0 # s1 # s2 # s3 # rest) =
     of_nat (s0 * 4 + s1 div 16) # of_nat (s1 mod 16 * 16 + s2 div 4) #
     of_nat (s2 mod 4 * 64 + s3) # sextets_bytes rest"
| "sextets_bytes [s0, s1, s2] =
     [of_nat (s0 * 4 + s1 div 16), of_nat (s1 mod 16 * 16 + s2 div 4)]"
| "sextets_bytes [s0, s1] = [of_nat (s0 * 4 + s1 div 16)]"
| "sextets_bytes [s0] = []"
| "sextets_bytes [] = []"

definition base64_decode :: "string \<Rightarrow> byte list" where
  "base64_decode s = sextets_bytes (base64_sextets s)"

definition is_ascii :: "char \<Rightarrow> bool" where
  "is_ascii c = (of_char c < (128::nat))"

text \<open>Decoding a string as base64, as \<^verbatim>\<open>Buffer.from\<close> and \<^verbatim>\<open>decipher.update\<close> both do.\<close>

definition decode_base64_string :: "Runtime \<Rightarrow> string \<Rightarrow> byte list" where
  "decode_base64_string rt s =
     (if list_all is_ascii s then base64_decode s else base64_decode_wide rt s)"

text \<open>
  \<^verbatim>\<open>Buffer.from(value, 'base64')\<close> on a property of a parsed value (\<open>None\<close>: the property is
  \<^verbatim>\<open>undefined\<close>). A string is decoded; an array gives its elements as bytes, and so does
  an object of the form \<^verbatim>\<open>{type: 'Buffer', data: [...]}\<close>, the encoding being ignored for
  both; \<^verbatim>\<open>undefined\<close>, \<^verbatim>\<open>null\<close>, a boolean, a number and any other object make it throw.
\<close>

fun is_byte_number :: "json \<Rightarrow> bool" where
  "is_byte_number (JNum n) = (0 \<le> n \<and> n \<le> 255)"
| "is_byte_number j = False"

fun number_byte :: "json \<Rightarrow> byte" where
  "number_byte (JNum n) = of_int n"
| "number_byte j = 0"

definition fromArrayLike :: "Runtime \<Rightarrow> json \<Rightarrow> json list \<Rightarrow> byte list option" where
  "fromArrayLike rt value xs =
     (if list_all is_byte_number xs then Some (map number_byte xs)
      else Buffer_from_object rt value)"

definition Buffer_from :: "Runtime \<Rightarrow> json option \<Rightarrow> byte list option" where
  "Buffer_from rt value =
     (case value of
        Some (JStr s) \<Rightarrow> Some (decode_base64_string rt s)
      | Some (JArr xs) \<Rightarrow> fromArrayLike rt (JArr xs) xs
      | Some (JObj kvs) \<Rightarrow>
          if map_of kvs ''valueOf'' \<noteq> None \<or> map_of kvs ''length'' \<noteq> None
            then Buffer_from_object rt (JObj kvs)
          else
            (case (map_of kvs ''type'', map_of kvs ''data'') of
               (Some (JStr t), Some (JArr xs)) \<Rightarrow>
                 if t = ''Buffer'' then fromArrayLike rt (JObj kvs) xs else None
             | _ \<Rightarrow> None)
      | _ \<Rightarrow> None)"

text \<open>
  The \<^verbatim>\<open>'utf8'\<close> output encoding of the decipher on the bytes of a text: the bytes read as a
  string.
\<close>

definition utf8_decode :: "byte list \<Rightarrow> string" where
  "utf8_decode bs = map (\<lambda>b. char_of (unat b)) bs"

record EncryptedData =
  enc_iv :: string
  enc_encrypted :: string
  enc_tag :: string

definition encryptedData_json :: "EncryptedData \<Rightarrow> json" where
  "encryptedData_json e =
     JObj [(''iv'', JStr (enc_iv e)), (''encrypted'', JStr (enc_encrypted e)),
           (''tag'', JStr (enc_tag e))]"

text \<open>
  Reading one of the properties \<^verbatim>\<open>iv\<close>, \<^verbatim>\<open>tag\<close>, \<^verbatim>\<open>encrypted\<close> of a parsed value: \<open>None\<close> is
  \<^verbatim>\<open>undefined\<close>, which is what a string, a number, a boolean and an array give for these
  names. (On \<^verbatim>\<open>null\<close> the read throws; \<open>decrypt\<close> fails there as it does on \<^verbatim>\<open>undefined\<close>.)
\<close>

fun json_field :: "json \<Rightarrow> string \<Rightarrow> json option" where
  "json_field (JObj kvs) k = map_of kvs k"
| "json_field j k = None"

datatype crypto_error = EncryptionFailed | DecryptionFailed

text \<open>
  \<^verbatim>\<open>encrypt\<close>: the cipher is created with the master key and the nonce (the runtime throws
  on a key that is not 32 bytes long), the plaintext is encrypted from its UTF-8 bytes, and
  nonce, ciphertext and tag go into the JSON text as base64. Every exception becomes
  \<^verbatim>\<open>Encryption failed\<close>.
\<close>

definition encrypt :: "AesGcm \<Rightarrow> byte list \<Rightarrow> byte list \<Rightarrow> string \<Rightarrow> crypto_error + string" where
  "encrypt cipher masterKey iv plaintext =
     (if length masterKey \<noteq> 32 then Inl EncryptionFailed
      else
        (let (encrypted, tag) = gcm_encrypt cipher masterKey iv (TextEncoder_encode plaintext);
             encryptedData = \<lparr>enc_iv = base64 iv, enc_encrypted = base64 encrypted,
                              enc_tag = base64 tag\<rparr>
         in Inr (JSON_stringify (encryptedData_json encryptedData))))"

text \<open>
  \<^verbatim>\<open>decrypt\<close>: parse the text, make buffers of the properties \<^verbatim>\<open>iv\<close> and \<^verbatim>\<open>tag\<close> with
  \<^verbatim>\<open>Buffer.from\<close>, create the decipher with the master key and the nonce, set the tag, and
  pass the property \<^verbatim>\<open>encrypted\<close> to \<^verbatim>\<open>decipher.update\<close> with the input encoding
  \<^verbatim>\<open>'base64'\<close>, which decodes a string and throws on every other parsed value. Every
  exception (the parser's, \<^verbatim>\<open>Buffer.from\<close>'s, the cipher's) becomes \<^verbatim>\<open>Decryption failed\<close>.
\<close>

definition decrypt :: "AesGcm \<Rightarrow> Runtime \<Rightarrow> byte list \<Rightarrow> string \<Rightarrow> crypto_error + string" where
  "decrypt cipher rt masterKey ciphertext =
     (case JSON_parse rt ciphertext of
        None \<Rightarrow> Inl DecryptionFailed
      | Some encryptedData \<Rightarrow>
          (case Buffer_from rt (json_field encryptedData ''iv'') of
             None \<Rightarrow> Inl DecryptionFailed
           | Some iv \<Rightarrow>
               (case Buffer_from rt (json_field encryptedData ''tag'') of
                  None \<Rightarrow> Inl DecryptionFailed
                | Some tag \<Rightarrow>
                    if length masterKey \<noteq> 32 then Inl DecryptionFailed
                    else
                      (case json_field encryptedData ''encrypted'' of
                         Some (JStr encrypted) \<Rightarrow>
                           (case gcm_decrypt cipher masterKey iv
                                   (decode_base64_string rt encrypted) tag of
                              None \<Rightarrow> Inl DecryptionFailed
                            | Some decrypted \<Rightarrow> Inr (utf8_decode decrypted))
                       | _ \<Rightarrow> Inl DecryptionFailed))))"

text \<open>The envelope that \<open>encrypt\<close> builds, before it is serialised.\<close>

definition sealed_data :: "AesGcm \<Rightarrow> byte list \<Rightarrow> byte list \<Rightarrow> string \<Rightarrow> EncryptedData" where
  "sealed_data cipher masterKey iv plaintext =
     \<lparr>enc_iv = base64 iv,
      enc_encrypted = base64 (fst (gcm_encrypt cipher masterKey iv (TextEncoder_encode plaintext))),
      enc_tag = base64 (snd (gcm_encrypt cipher masterKey iv (TextEncoder_encode plaintext)))\<rparr>"

section \<open>Scenarios\<close>

subsection \<open>A chain with one transfer\<close>

text \<open>
  A platform wallet whose cursor stands at block 100, a chain at height 110 holding one
  transfer of 50 units (6 decimals) to the platform address in block 105, and the two
  failures used below: the event query throws, or the creation of the deposit record throws.
\<close>

definition platform_wallet_100 :: PlatformWallet where
  "platform_wallet_100 =
     \<lparr>wallet_id = ''wallet-1'', address = ''0xplatform'', lastScannedBlock = 100\<rparr>"

definition store_cursor_100 :: Store where
  "store_cursor_100 =
     \<lparr>platformWallet = Some platform_wallet_100, deposits = [], users = Map.empty\<rparr>"

definition transfer_105 :: TransferEvent where
  "transfer_105 =
     \<lparr>transactionHash = ''0xabc'', ev_from = ''0xa11ce'', ev_to = ''0xplatform'',
      ev_value = 50000000, ev_blockNumber = 105\<rparr>"

definition chain_110 :: "(ext_call \<Rightarrow> string option) \<Rightarrow> Env" where
  "chain_110 f =
     \<lparr>fails = f, blockHeight = 110, transferEvents = [transfer_105], tokenDecimals = 6,
      receipts = [''0xabc'' \<mapsto> 105]\<rparr>"

definition no_failure :: "ext_call \<Rightarrow> string option" where
  "no_failure c = None"

definition query_fails :: "ext_call \<Rightarrow> string option" where
  "query_fails c = (if c = QueryFilter then Some ''SERVER_ERROR'' else None)"

definition create_fails :: "ext_call \<Rightarrow> string option" where
  "create_fails c = (if c = CreateDeposit ''0xabc'' then Some ''UNAVAILABLE'' else None)"

lemmas scan_scenario_defs =
  platform_wallet_100_def store_cursor_100_def transfer_105_def chain_110_def
  no_failure_def query_fails_def create_fails_def

lemmas scan_tick_defs =
  scanForNewDeposits_def scanForDeposits_def getCurrentBlock_def queryFilter_def
  toScanned_def recordDeposit_def getDepositByTxHash_def createDeposit_def
  updatePlatformWalletBlock_def CONFIRMATIONS_REQUIRED_def

subsection \<open>A confirmed deposit\<close>

text \<open>
  The transfer of block 105 recorded for the user \<open>alice\<close> and confirmed, with the chain at
  height 117, and two failures: every status write of the deposit throws, or the venue
  mirror call throws.
\<close>

definition alice :: User where
  "alice =
     \<lparr>internalBalance = 0, totalDeposits = 0, accountId = ''0xacc'',
      encryptedOrderlyPrivateKey = ''sealed-key''\<rparr>"

definition alice_deposit :: Deposit where
  "alice_deposit =
     \<lparr>dep_id = 0, userId = ''alice'', txHash = ''0xabc'', amount = 50,
      fromAddress = ''0xa11ce'', toAddress = ''0xplatform'', blockNumber = 105,
      confirmations = 12, requiredConfirmations = 12, status = confirmed,
      orderlyConfirmed = False, errorMessage = None, retryCount = 0\<rparr>"

definition store_alice :: Store where
  "store_alice =
     \<lparr>platformWallet = Some (platform_wallet_100\<lparr>lastScannedBlock := 117\<rparr>),
      deposits = [alice_deposit], users = [''alice'' \<mapsto> alice]\<rparr>"

definition chain_117 :: "(ext_call \<Rightarrow> string option) \<Rightarrow> Env" where
  "chain_117 f =
     \<lparr>fails = f, blockHeight = 117, transferEvents = [transfer_105], tokenDecimals = 6,
      receipts = [''0xabc'' \<mapsto> 105]\<rparr>"

definition status_writes_fail :: "ext_call \<Rightarrow> string option" where
  "status_writes_fail c =
     (case c of UpdateDepositStatus i st \<Rightarrow> Some ''UNAVAILABLE'' | _ \<Rightarrow> None)"

definition mirror_fails :: "ext_call \<Rightarrow> string option" where
  "mirror_fails c =
     (case c of CreditAccountBalance a \<Rightarrow> Some ''Orderly credit error: timeout'' | _ \<Rightarrow> None)"

lemmas credit_scenario_defs =
  alice_def alice_deposit_def store_alice_def chain_117_def status_writes_fail_def
  mirror_fails_def no_failure_def platform_wallet_100_def transfer_105_def

lemmas credit_tick_defs =
  processPendingDeposits_def getPendingDeposits_def processDeposit_def getTransaction_def
  getCurrentBlock_def creditDeposit_def creditUserDeposit_def tryUpdateDepositStatus_def
  updateDepositStatus_def

subsection \<open>A test signer\<close>

text \<open>
  A signing function used to exercise the theorems: it ignores its entropy and returns the
  key followed by the message.
\<close>

definition echo_sign :: "nat ed25519" where
  "echo_sign entropy message key = key @ message"

definition test_auth :: OrderlyAuth where
  "test_auth =
     \<lparr>auth_privateKey = [251, 255], auth_publicKey = ''ed25519:pk'', auth_accountId = ''0xacc''\<rparr>"

subsection \<open>A test cipher\<close>

text \<open>
  A stand-in cipher and runtime used to exercise the theorems: the cipher reverses the
  plaintext and uses the first two key bytes followed by the first two nonce bytes as tag;
  the parser knows one text; the runtime throws where \<open>Buffer_from_object\<close> is asked and
  decodes nothing from text outside ASCII.
\<close>

definition test_cipher :: AesGcm where
  "test_cipher =
     \<lparr>gcm_encrypt = (\<lambda>key iv p. (rev p, take 2 key @ take 2 iv)),
      gcm_decrypt = (\<lambda>key iv ct tag.
        if tag = take 2 key @ take 2 iv then Some (rev ct) else None)\<rparr>"

definition test_key :: "byte list" where
  "test_key = replicate 32 255"

definition test_iv :: "byte list" where
  "test_iv = [1, 1, 1, 1, 1, 1, 1, 1, 1, 1, 1, 1]"

definition parse_only :: "string \<Rightarrow> json \<Rightarrow> string \<Rightarrow> json option" where
  "parse_only known j text = (if text = known then Some j else None)"

definition test_runtime :: "string \<Rightarrow> json \<Rightarrow> Runtime" where
  "test_runtime known j =
     \<lparr>JSON_parse = parse_only known j, Buffer_from_object = (\<lambda>value. None),
      base64_decode_wide = (\<lambda>s. [])\<rparr>"

text \<open>
  The envelope of the plaintext \<^verbatim>\<open>secret\<close> under the test key and nonce as \<open>encrypt\<close> writes
  it, and an envelope for the same bytes that \<open>encrypt\<close> never writes: the nonce is an array
  of numbers, the ciphertext has a space in it, and the tag is in the URL-safe alphabet
  without padding. \<open>malformed_text\<close> is its JSON text. \<open>tampered_secret\<close> is the sealed
  envelope with another tag.
\<close>

definition sealed_secret :: json where
  "sealed_secret =
     JObj [(''iv'', JStr ''AQEBAQEBAQEBAQEB''), (''encrypted'', JStr ''dGVyY2Vz''),
           (''tag'', JStr ''//8BAQ=='')]"

definition tampered_secret :: json where
  "tampered_secret =
     JObj [(''iv'', JStr ''AQEBAQEBAQEBAQEB''), (''encrypted'', JStr ''dGVyY2Vz''),
           (''tag'', JStr ''AAAAAA=='')]"

definition malformed_envelope :: json where
  "malformed_envelope =
     JObj [(''iv'', JArr [JNum 1, JNum 1, JNum 1, JNum 1, JNum 1, JNum 1,
                          JNum 1, JNum 1, JNum 1, JNum 1, JNum 1, JNum 1]),
           (''encrypted'', JStr ''dGVy Y2Vz''),
           (''tag'', JStr ''__8BAQ'')]"

definition malformed_text :: string where
  "malformed_text = JSON_stringify malformed_envelope"

section \<open>Properties of the retry loop\<close>

lemma isRetryableError_iff:
  "isRetryableError code = (code \<notin> {- 1001, - 1002, - 1005, - 1004, - 1007})"
  by (auto simp: isRetryableError_def nonRetryableCodes_def OrderlyErrorCode_defs)

lemma upt_add_Suc: "[a..<a + Suc k] = a # [Suc a..<Suc a + k]"
  by (simp add: upt_eq_Cons_conv)

lemma request_loop_delays:
  "\<exists>k. (attempt + k \<le> maxRetries \<or> k = 0) \<and>
     snd (request_loop maxRetries responses attempt lastError slept) =
       slept @ map backoff_delay [attempt..<attempt + k]"
proof (induction maxRetries responses attempt lastError slept rule: request_loop.induct)
  case (1 maxRetries responses attempt lastError slept)
  show ?case
  proof (cases "attempt \<le> maxRetries")
    case False
    then show ?thesis by (subst request_loop.simps) (auto intro: exI[of _ 0])
  next
    case le: True
    show ?thesis
    proof (cases "run_attempt (responses attempt)")
      case (Inr d)
      then show ?thesis using le by (subst request_loop.simps) (auto intro: exI[of _ 0])
    next
      case (Inl c)
      show ?thesis
      proof (cases c)
        case (Throw e)
        then show ?thesis using le Inl by (subst request_loop.simps) (auto intro: exI[of _ 0])
      next
        case (Continue e)
        from "1.IH"[OF le Inl Continue] obtain k where
          k: "Suc attempt + k \<le> maxRetries \<or> k = 0"
          and eq: "snd (request_loop maxRetries responses (Suc attempt) e
                     (if attempt < maxRetries then slept @ [backoff_delay attempt] else slept)) =
                   (if attempt < maxRetries then slept @ [backoff_delay attempt] else slept) @
                     map backoff_delay [Suc attempt..<Suc attempt + k]"
          by blast
        have unfold: "request_loop maxRetries responses attempt lastError slept =
            request_loop maxRetries responses (Suc attempt) e
              (if attempt < maxRetries then slept @ [backoff_delay attempt] else slept)"
          using le Inl Continue by (subst request_loop.simps) simp
        show ?thesis
        proof (cases "attempt < maxRetries")
          case True
          have "attempt + Suc k \<le> maxRetries" using k True by auto
          moreover have "snd (request_loop maxRetries responses attempt lastError slept) =
              slept @ map backoff_delay [attempt..<attempt + Suc k]"
            using eq True unfold by (simp only: upt_add_Suc) simp
          ultimately show ?thesis by blast
        next
          case False
          then have "attempt = maxRetries" using le by simp
          then have "k = 0" using k by auto
          then show ?thesis using eq unfold False by (auto intro: exI[of _ 0])
        qed
      qed
    qed
  qed
qed

lemma clock_skew_not_retryable: "isClockSkewError code message \<Longrightarrow> \<not> isRetryableError code"
  by (simp add: isClockSkewError_def isRetryableError_def nonRetryableCodes_def)

lemma run_attempt_retryable:
  "retryable_failure outcome \<Longrightarrow> \<exists>e. run_attempt outcome = Inl (Continue e)"
  by (auto simp: retryable_failure_def run_attempt_def handle_axios_def Let_def
      dest: clock_skew_not_retryable split: attempt_outcome.splits option.splits)

lemma request_loop_retries:
  "attempt + k \<le> maxRetries \<Longrightarrow> \<forall>i<k. retryable_failure (responses (attempt + i)) \<Longrightarrow>
   responses (attempt + k) = Ok_data d \<Longrightarrow>
   request_loop maxRetries responses attempt lastError slept =
     (Inr d, slept @ map backoff_delay [attempt..<attempt + k])"
proof (induction k arbitrary: attempt lastError slept)
  case 0
  then show ?case by (subst request_loop.simps) (simp add: run_attempt_def)
next
  case (Suc k)
  from Suc.prems(2) have "retryable_failure (responses attempt)" by force
  then obtain e where e: "run_attempt (responses attempt) = Inl (Continue e)"
    using run_attempt_retryable by blast
  have lt: "attempt < maxRetries" using Suc.prems(1) by simp
  have "request_loop maxRetries responses attempt lastError slept =
      request_loop maxRetries responses (Suc attempt) e (slept @ [backoff_delay attempt])"
    using lt e by (subst request_loop.simps) simp
  also have "\<dots> = (Inr d, (slept @ [backoff_delay attempt]) @
      map backoff_delay [Suc attempt..<Suc attempt + k])"
  proof (rule Suc.IH)
    show "Suc attempt + k \<le> maxRetries" using Suc.prems(1) by simp
    show "\<forall>i<k. retryable_failure (responses (Suc attempt + i))"
      using Suc.prems(2) by (metis Suc_less_eq add_Suc_shift)
    show "responses (Suc attempt + k) = Ok_data d" using Suc.prems(3) by simp
  qed
  finally show ?case by (simp only: upt_add_Suc) simp
qed

text \<open>
  The branch of the \<^verbatim>\<open>catch\<close> block that adds the clock guidance is never taken: it sits
  behind the test \<^verbatim>\<open>!isRetryableError(code)\<close>, which already throws for \<^verbatim>\<open>UNAUTHORIZED\<close>,
  the only code \<^verbatim>\<open>isClockSkewError\<close> accepts.
\<close>

lemma handle_axios_never_plain: "handle_axios d \<noteq> Throw (PlainError m)"
  by (auto simp: handle_axios_def createOrderlyError_def Let_def
      dest: clock_skew_not_retryable split: option.splits)

text \<open>
  The classification and the backoff. The client classifies venue error codes with exactly
  the non-retryable list invalid-signature, unauthorized, invalid-param, unknown-param,
  duplicate-request, every other code being retryable; the delays it sleeps are \<open>min (1000 * 2 ^ attempt) 10000\<close>
  milliseconds for the attempts \<open>0, 1, ...\<close> in order, at most \<open>maxRetries\<close> of them (so at most
  \<open>maxRetries + 1\<close> attempts); and retryable failures are retried: when the first \<open>k\<close>
  attempts fail with a retryable venue code and attempt \<open>k\<close> succeeds, the request returns
  that payload after sleeping exactly the first \<open>k\<close> delays.
\<close>

theorem retry_policy:
  "(isRetryableError code =
      (code \<notin> {INVALID_SIGNATURE, UNAUTHORIZED, INVALID_PARAM, UNKNOWN_PARAM,
                 DUPLICATE_REQUEST})) \<and>
   (\<exists>n. n \<le> maxRetries \<and>
      snd (request maxRetries responses) =
        map (\<lambda>attempt. min (1000 * 2 ^ attempt) 10000) [0..<n]) \<and>
   (k \<le> maxRetries \<and> (\<forall>i<k. retryable_failure (responses i)) \<and> responses k = Ok_data d
      \<longrightarrow> request maxRetries responses =
            (Inr d, map (\<lambda>attempt. min (1000 * 2 ^ attempt) 10000) [0..<k]))"
proof (intro conjI impI)
  show "isRetryableError code =
      (code \<notin> {INVALID_SIGNATURE, UNAUTHORIZED, INVALID_PARAM, UNKNOWN_PARAM,
                 DUPLICATE_REQUEST})"
    by (simp add: isRetryableError_def nonRetryableCodes_def)
next
  have bd: "backoff_delay = (\<lambda>attempt. min (1000 * 2 ^ attempt) 10000)"
    by (rule ext) (simp add: backoff_delay_def)
  from request_loop_delays[of 0 maxRetries responses UndefinedError "[]"]
  obtain n where "0 + n \<le> maxRetries \<or> n = 0"
    and "snd (request_loop maxRetries responses 0 UndefinedError []) =
           [] @ map backoff_delay [0..<0 + n]"
    by blast
  then have "n \<le> maxRetries \<and> snd (request maxRetries responses) =
      map (\<lambda>attempt. min (1000 * 2 ^ attempt) 10000) [0..<n]"
    by (auto simp: request_def bd)
  then show "\<exists>n. n \<le> maxRetries \<and> snd (request maxRetries responses) =
      map (\<lambda>attempt. min (1000 * 2 ^ attempt) 10000) [0..<n]"
    by blast
next
  assume a: "k \<le> maxRetries \<and> (\<forall>i<k. retryable_failure (responses i)) \<and>
    responses k = Ok_data d"
  have bd: "backoff_delay = (\<lambda>attempt. min (1000 * 2 ^ attempt) 10000)"
    by (rule ext) (simp add: backoff_delay_def)
  from a have "request_loop maxRetries responses 0 UndefinedError [] =
      (Inr d, [] @ map backoff_delay [0..<0 + k])"
    by (intro request_loop_retries) simp_all
  then show "request maxRetries responses =
      (Inr d, map (\<lambda>attempt. min (1000 * 2 ^ attempt) 10000) [0..<k])"
    by (simp add: request_def bd)
qed

theorem retry_policy_witness:
  "isRetryableError TOO_MANY_REQUEST \<and>
   request 3 (\<lambda>n. if n < 2
                then Axios_failure (Some \<lparr>ed_code = Some TOO_MANY_REQUEST,
                                            ed_message = Some ''slow down''\<rparr>)
                else Ok_data (7::nat)) =
     (Inr 7, [1000, 2000])"
proof -
  let ?r = "\<lambda>n::nat. if n < 2
                then Axios_failure (Some \<lparr>ed_code = Some TOO_MANY_REQUEST,
                                            ed_message = Some ''slow down''\<rparr>)
                else Ok_data (7::nat)"
  have r: "isRetryableError TOO_MANY_REQUEST"
    by (simp add: isRetryableError_def nonRetryableCodes_def OrderlyErrorCode_defs)
  have h: "(2::nat) \<le> 3 \<and> (\<forall>i<2. retryable_failure (?r i)) \<and> ?r 2 = Ok_data 7"
    using r by (simp add: retryable_failure_def TOO_MANY_REQUEST_def)
  have u: "[0..<2] = [0, Suc 0]" by (simp add: upt_rec)
  from retry_policy[of TOO_MANY_REQUEST 3 ?r 2 7] h
  have "request 3 ?r = (Inr 7, map (\<lambda>attempt. min (1000 * 2 ^ attempt) 10000) [0..<2])"
    by blast
  then show ?thesis using r by (simp add: u)
qed

lemma request_loop_throws:
  "attempt + k \<le> maxRetries \<Longrightarrow> \<forall>i<k. retryable_failure (responses (attempt + i)) \<Longrightarrow>
   run_attempt (responses (attempt + k)) = Inl (Throw e) \<Longrightarrow>
   request_loop maxRetries responses attempt lastError slept =
     (Inl e, slept @ map backoff_delay [attempt..<attempt + k])"
proof (induction k arbitrary: attempt lastError slept)
  case 0
  then show ?case by (subst request_loop.simps) simp
next
  case (Suc k)
  from Suc.prems(2) have "retryable_failure (responses attempt)" by force
  then obtain e' where e': "run_attempt (responses attempt) = Inl (Continue e')"
    using run_attempt_retryable by blast
  have lt: "attempt < maxRetries" using Suc.prems(1) by simp
  have "request_loop maxRetries responses attempt lastError slept =
      request_loop maxRetries responses (Suc attempt) e' (slept @ [backoff_delay attempt])"
    using lt e' by (subst request_loop.simps) simp
  also have "\<dots> = (Inl e, (slept @ [backoff_delay attempt]) @
      map backoff_delay [Suc attempt..<Suc attempt + k])"
  proof (rule Suc.IH)
    show "Suc attempt + k \<le> maxRetries" using Suc.prems(1) by simp
    show "\<forall>i<k. retryable_failure (responses (Suc attempt + i))"
      using Suc.prems(2) by (metis Suc_less_eq add_Suc_shift)
    show "run_attempt (responses (Suc attempt + k)) = Inl (Throw e)" using Suc.prems(3) by simp
  qed
  finally show ?case by (simp only: upt_add_Suc) simp
qed

text \<open>
  A non-retryable venue code is surfaced at once where the \<^verbatim>\<open>catch\<close> block classifies: when
  the HTTP library fails with a response body that carries a (truthy) code and message and
  the code is not retryable, the request throws the venue error after the delays of the
  retryable failures before it, and sleeps no more.
\<close>

lemma non_retryable_failure_surfaced:
  assumes "k \<le> maxRetries" and "\<forall>i<k. retryable_failure (responses i)"
    and "responses k = Axios_failure (Some errorData)"
    and "ed_code errorData = Some code" and "ed_message errorData = Some message"
    and "code \<noteq> 0" and "message \<noteq> []" and "\<not> isRetryableError code"
  shows "request maxRetries responses =
     (Inl (createOrderlyError code message), map backoff_delay [0..<k])"
proof -
  have "run_attempt (responses k) = Inl (Throw (createOrderlyError code message))"
    using assms(3-8) by (simp add: run_attempt_def handle_axios_def)
  then have "request_loop maxRetries responses 0 UndefinedError [] =
      (Inl (createOrderlyError code message), [] @ map backoff_delay [0..<0 + k])"
    using assms(1,2) by (intro request_loop_throws) simp_all
  then show ?thesis by (simp add: request_def)
qed

lemma createOrderlyError_INVALID_SIGNATURE:
  "createOrderlyError INVALID_SIGNATURE message =
     OrderlyApiError (- 1001)
       (''INVALID_SIGNATURE: '' @ message @ ''. API key/secret in wrong format'') (Some 401)"
  by (simp add: createOrderlyError_def ERROR_CODE_MAP_def INVALID_SIGNATURE_def)

lemma INVALID_SIGNATURE_not_retryable: "\<not> isRetryableError INVALID_SIGNATURE"
  by (simp add: isRetryableError_def nonRetryableCodes_def)

text \<open>
  Claim C6. The non-retryable codes are to be surfaced without a retry. Evaluated on the
  code with \<open>maxRetries = 3\<close> and the non-retryable code \<^verbatim>\<open>INVALID_SIGNATURE\<close>: when the HTTP
  library fails with the body \<^verbatim>\<open>{code: -1001, message: "bad signature"}\<close>, the request
  throws the venue error at once and sleeps nothing. When the same code and message arrive
  in a successful HTTP response with \<^verbatim>\<open>success: false\<close>, the error thrown in the \<^verbatim>\<open>try\<close> body
  is not an error of the HTTP library, the \<^verbatim>\<open>catch\<close> block does not classify it, and the
  request is attempted four times with the delays 1000, 2000 and 4000 before the same error
  is thrown. A failed response whose body has the code and an empty message is not
  classified either and is retried in the same way.
\<close>

theorem non_retryable_code_retried:
  "\<not> isRetryableError INVALID_SIGNATURE \<and>
   request 3 (\<lambda>n. Axios_failure (Some \<lparr>ed_code = Some INVALID_SIGNATURE,
                                          ed_message = Some ''bad signature''\<rparr>)) =
     (Inl (OrderlyApiError (- 1001)
        ''INVALID_SIGNATURE: bad signature. API key/secret in wrong format''
        (Some 401)) :: api_error + unit, []) \<and>
   request 3 (\<lambda>n. Ok_failure INVALID_SIGNATURE ''bad signature'') =
     (Inl (OrderlyApiError (- 1001)
        ''INVALID_SIGNATURE: bad signature. API key/secret in wrong format''
        (Some 401)) :: api_error + unit, [1000, 2000, 4000]) \<and>
   request 3 (\<lambda>n. Axios_failure (Some \<lparr>ed_code = Some INVALID_SIGNATURE,
                                          ed_message = Some ''''\<rparr>)) =
     (Inl (AxiosError (Some \<lparr>ed_code = Some INVALID_SIGNATURE, ed_message = Some ''''\<rparr>))
        :: api_error + unit, [1000, 2000, 4000])"
proof (intro conjI)
  show "\<not> isRetryableError INVALID_SIGNATURE"
    by (rule INVALID_SIGNATURE_not_retryable)
  show "request 3 (\<lambda>n. Axios_failure (Some \<lparr>ed_code = Some INVALID_SIGNATURE,
                                          ed_message = Some ''bad signature''\<rparr>)) =
     (Inl (OrderlyApiError (- 1001)
        ''INVALID_SIGNATURE: bad signature. API key/secret in wrong format''
        (Some 401)) :: api_error + unit, [])"
    by (simp add: request_def request_loop.simps run_attempt_def handle_axios_def
        INVALID_SIGNATURE_not_retryable createOrderlyError_INVALID_SIGNATURE)
      (simp add: INVALID_SIGNATURE_def)
  show "request 3 (\<lambda>n. Ok_failure INVALID_SIGNATURE ''bad signature'') =
     (Inl (OrderlyApiError (- 1001)
        ''INVALID_SIGNATURE: bad signature. API key/secret in wrong format''
        (Some 401)) :: api_error + unit, [1000, 2000, 4000])"
    by (simp add: request_def request_loop.simps run_attempt_def
        createOrderlyError_INVALID_SIGNATURE backoff_delay_def)
  show "request 3 (\<lambda>n. Axios_failure (Some \<lparr>ed_code = Some INVALID_SIGNATURE,
                                          ed_message = Some ''''\<rparr>)) =
     (Inl (AxiosError (Some \<lparr>ed_code = Some INVALID_SIGNATURE, ed_message = Some ''''\<rparr>))
        :: api_error + unit, [1000, 2000, 4000])"
    by (simp add: request_def request_loop.simps run_attempt_def handle_axios_def
        backoff_delay_def)
qed

lemma createOrderlyError_UNAUTHORIZED:
  "createOrderlyError UNAUTHORIZED message =
     OrderlyApiError (- 1002)
       (''UNAUTHORIZED: '' @ message @
        ''. Invalid, expired, revoked credentials or lack permissions'') (Some 401)"
  by (simp add: createOrderlyError_def ERROR_CODE_MAP_def UNAUTHORIZED_def)

lemma UNAUTHORIZED_not_retryable: "\<not> isRetryableError UNAUTHORIZED"
  by (simp add: isRetryableError_def nonRetryableCodes_def)

text \<open>
  Claim C7. A venue response with the unauthorized code whose message mentions the
  timestamp should be surfaced at once with guidance to check the system clock. Evaluated
  on the code: when the HTTP library fails with the body
  \<^verbatim>\<open>{code: -1002, message: "timestamp expired"}\<close>, the request throws at once, without a
  retry, but the error is the plain unauthorized error and its message has no clock
  guidance; when the same code and message arrive in a successful HTTP response with
  \<^verbatim>\<open>success: false\<close>, the request is retried three times with backoff and then throws the
  same error without guidance.
\<close>

theorem clock_skew_guidance_missing:
  "isClockSkewError UNAUTHORIZED ''timestamp expired'' \<and>
   request 3 (\<lambda>n. Axios_failure (Some \<lparr>ed_code = Some UNAUTHORIZED,
                                          ed_message = Some ''timestamp expired''\<rparr>)) =
     (Inl (OrderlyApiError (- 1002)
        ''UNAUTHORIZED: timestamp expired. Invalid, expired, revoked credentials or lack permissions''
        (Some 401)) :: api_error + unit, []) \<and>
   request 3 (\<lambda>n. Ok_failure UNAUTHORIZED ''timestamp expired'') =
     (Inl (OrderlyApiError (- 1002)
        ''UNAUTHORIZED: timestamp expired. Invalid, expired, revoked credentials or lack permissions''
        (Some 401)) :: api_error + unit, [1000, 2000, 4000]) \<and>
   \<not> includes_str (toLowerCase
        ''UNAUTHORIZED: timestamp expired. Invalid, expired, revoked credentials or lack permissions'')
        ''clock''"
proof (intro conjI)
  show "isClockSkewError UNAUTHORIZED ''timestamp expired''"
    by (simp add: isClockSkewError_def toLowerCase_def lower_char_def)
  show "request 3 (\<lambda>n. Axios_failure (Some \<lparr>ed_code = Some UNAUTHORIZED,
                                          ed_message = Some ''timestamp expired''\<rparr>)) =
     (Inl (OrderlyApiError (- 1002)
        ''UNAUTHORIZED: timestamp expired. Invalid, expired, revoked credentials or lack permissions''
        (Some 401)) :: api_error + unit, [])"
    by (simp add: request_def request_loop.simps run_attempt_def handle_axios_def
        UNAUTHORIZED_not_retryable createOrderlyError_UNAUTHORIZED)
      (simp add: UNAUTHORIZED_def)
  show "request 3 (\<lambda>n. Ok_failure UNAUTHORIZED ''timestamp expired'') =
     (Inl (OrderlyApiError (- 1002)
        ''UNAUTHORIZED: timestamp expired. Invalid, expired, revoked credentials or lack permissions''
        (Some 401)) :: api_error + unit, [1000, 2000, 4000])"
    by (simp add: request_def request_loop.simps run_attempt_def
        createOrderlyError_UNAUTHORIZED backoff_delay_def)
  show "\<not> includes_str (toLowerCase
        ''UNAUTHORIZED: timestamp expired. Invalid, expired, revoked credentials or lack permissions'')
        ''clock''"
    by (simp add: toLowerCase_def lower_char_def)
qed

section \<open>Properties of the deposit pipeline\<close>

subsection \<open>The chain scanner\<close>



text \<open>
  Claim C10. When the block-height query (asked for when no upper block is given), the
  event query or the decimals query throws during a scan, \<^verbatim>\<open>scanForDeposits\<close> returns the
  empty list, the very value a scan without any failure returns on a chain with no transfers:
  the caller cannot tell the two apart.
\<close>

theorem scanForDeposits_failure_indistinguishable:
  "(((toBlock = None \<or> toBlock = Some 0) \<and> fails env GetBlockNumber \<noteq> None) \<or>
    fails env QueryFilter \<noteq> None \<or> fails env Decimals \<noteq> None)
   \<longrightarrow> scanForDeposits env platformAddress fromBlock toBlock = [] \<and>
       scanForDeposits (env\<lparr>fails := (\<lambda>c. None), transferEvents := []\<rparr>)
         platformAddress fromBlock toBlock =
       scanForDeposits env platformAddress fromBlock toBlock"
  by (auto simp: scanForDeposits_def getCurrentBlock_def queryFilter_def
      split: option.splits sum.splits)

theorem scanForDeposits_failure_indistinguishable_witness:
  "fails (chain_110 query_fails) QueryFilter \<noteq> None \<and>
   scanForDeposits (chain_110 query_fails) ''0xplatform'' 101 (Some 110) = [] \<and>
   scanForDeposits (chain_110 no_failure) ''0xplatform'' 101 (Some 110) \<noteq> [] \<and>
   scanForDeposits ((chain_110 query_fails)\<lparr>fails := (\<lambda>c. None), transferEvents := []\<rparr>)
     ''0xplatform'' 101 (Some 110) = []"
proof -
  have h: "fails (chain_110 query_fails) QueryFilter \<noteq> None"
    by (simp add: chain_110_def query_fails_def)
  have ok: "scanForDeposits (chain_110 no_failure) ''0xplatform'' 101 (Some 110) \<noteq> []"
    by (simp add: scan_tick_defs scan_scenario_defs)
  from scanForDeposits_failure_indistinguishable
         [of "Some 110" "chain_110 query_fails" "''0xplatform''" 101] h
  show ?thesis using ok by simp
qed




subsection \<open>The crediting step\<close>

lemma users_updateDepositStatus [simp]:
  "users (updateDepositStatus s i st upd) = users s"
  by (simp add: updateDepositStatus_def)

lemma tryUpdate_users:
  "tryUpdateDepositStatus env s i st upd = Inr s' \<Longrightarrow> users s' = users s"
  by (auto simp: tryUpdateDepositStatus_def split: option.splits)

lemma credit_applied_users:
  "credit_applied s1 d s2 \<Longrightarrow> users s1 = users s \<Longrightarrow> users s3 = users s2 \<Longrightarrow>
   credit_applied s d s3"
  by (auto simp: credit_applied_def split: option.splits)

lemma not_pending_after_status:
  assumes "st = credited \<or> st = failed"
    and "\<And>x. status (upd x) = status x"
    and "\<And>x. dep_id (upd x) = dep_id x"
  shows "\<forall>x\<in>set (getPendingDeposits (updateDepositStatus s i st upd)). dep_id x \<noteq> i"
proof
  fix x assume "x \<in> set (getPendingDeposits (updateDepositStatus s i st upd))"
  then obtain y where y: "y \<in> set (deposits s)"
    and x: "x = (if dep_id y = i then upd (y\<lparr>status := st\<rparr>) else y)"
    and p: "status x = pending \<or> status x = confirmed"
    unfolding getPendingDeposits_def updateDepositStatus_def by auto
  show "dep_id x \<noteq> i"
  proof (cases "dep_id y = i")
    case True
    then have "status x = st" using x assms(2) by simp
    then show ?thesis using p assms(1) by auto
  next
    case False
    then show ?thesis using x by simp
  qed
qed

lemma creditDeposit_Inl:
  "creditDeposit env s d = Inl (m, s') \<Longrightarrow>
     deposits s' = deposits s \<and> (users s' = users s \<or> credit_applied s d s')"
  by (cases "fails env (GetUserById (userId d))"; cases "users s (userId d)";
      cases "fails env (CreditUserDeposit (userId d))";
      cases "fails env (Decrypt (encryptedOrderlyPrivateKey (the (users s (userId d)))))";
      cases "fails env (CreditAccountBalance (accountId (the (users s (userId d)))))";
      cases "fails env (UpdateDepositStatus (dep_id d) credited)")
     (auto simp: creditDeposit_def creditUserDeposit_def credited_user_def credit_applied_def
        tryUpdateDepositStatus_def)

lemma creditDeposit_Inr_eq:
  "creditDeposit env s d = Inr s' \<Longrightarrow>
     \<exists>u. users s (userId d) = Some u \<and>
       s' = updateDepositStatus
              (s\<lparr>users := (users s)(userId d \<mapsto> credited_user u (amount d))\<rparr>)
              (dep_id d) credited (\<lambda>d. d\<lparr>orderlyConfirmed := True\<rparr>)"
  by (cases "fails env (GetUserById (userId d))"; cases "users s (userId d)";
      cases "fails env (CreditUserDeposit (userId d))";
      cases "fails env (Decrypt (encryptedOrderlyPrivateKey (the (users s (userId d)))))";
      cases "fails env (CreditAccountBalance (accountId (the (users s (userId d)))))";
      cases "fails env (UpdateDepositStatus (dep_id d) credited)")
     (auto simp: creditDeposit_def creditUserDeposit_def credited_user_def
        tryUpdateDepositStatus_def)

lemma creditDeposit_Inr:
  "creditDeposit env s d = Inr s' \<Longrightarrow>
     credit_applied s d s' \<and>
     (\<forall>x\<in>set (getPendingDeposits s'). dep_id x \<noteq> dep_id d)"
proof -
  assume a: "creditDeposit env s d = Inr s'"
  from creditDeposit_Inr_eq[OF a] obtain u where u: "users s (userId d) = Some u"
    and s': "s' = updateDepositStatus
              (s\<lparr>users := (users s)(userId d \<mapsto> credited_user u (amount d))\<rparr>)
              (dep_id d) credited (\<lambda>d. d\<lparr>orderlyConfirmed := True\<rparr>)"
    by blast
  have "credit_applied s d s'" using u s' by (simp add: credit_applied_def)
  moreover have "\<forall>x\<in>set (getPendingDeposits s'). dep_id x \<noteq> dep_id d"
    unfolding s' by (rule not_pending_after_status) simp_all
  ultimately show ?thesis by blast
qed

lemma processDeposit_unfold:
  assumes "userId d \<noteq> []" and "getTransaction env (txHash d) = Some txBlock"
    and "getCurrentBlock env = Inr currentBlock"
  shows "processDeposit env (s, al) d =
    (case (if currentBlock - txBlock \<noteq> confirmations d then
             (if currentBlock - txBlock \<ge> requiredConfirmations d \<and> status d = pending
              then tryUpdateDepositStatus env s (dep_id d) confirmed
                     (\<lambda>d. d\<lparr>confirmations := currentBlock - txBlock\<rparr>)
              else tryUpdateDepositStatus env s (dep_id d) (status d)
                     (\<lambda>d. d\<lparr>confirmations := currentBlock - txBlock\<rparr>))
           else Inr s) of
       Inl m \<Rightarrow> (s, al)
     | Inr store1 \<Rightarrow>
         if currentBlock - txBlock \<ge> requiredConfirmations d \<and> \<not> orderlyConfirmed d
         then
           (case creditDeposit env store1 d of
              Inr store2 \<Rightarrow> (store2, al)
            | Inl (message, store2) \<Rightarrow>
                (case tryUpdateDepositStatus env store2 (dep_id d) failed
                        (\<lambda>x. x\<lparr>errorMessage := Some message,
                                retryCount := retryCount d + 1\<rparr>) of
                   Inl m \<Rightarrow> (store2, al)
                 | Inr store3 \<Rightarrow>
                     (store3, if retryCount d \<ge> 3 then al @ [dep_id d] else al)))
         else (store1, al))"
  using assms by (simp add: processDeposit_def Let_def)

lemma credit_once:
  assumes w1: "fails env (UpdateDepositStatus (dep_id d) credited) = None"
    and w2: "fails env (UpdateDepositStatus (dep_id d) failed) = None"
  shows "users (fst (processDeposit env (s, al) d)) = users s \<or>
     (credit_applied s d (fst (processDeposit env (s, al) d)) \<and>
      (\<forall>x\<in>set (getPendingDeposits (fst (processDeposit env (s, al) d))).
         dep_id x \<noteq> dep_id d))"
proof (cases "userId d = [] \<or> getTransaction env (txHash d) = None \<or>
    (\<exists>m. getCurrentBlock env = Inl m)")
  case True
  then have "processDeposit env (s, al) d = (s, al)"
    by (auto simp: processDeposit_def split: option.splits sum.splits)
  then show ?thesis by simp
next
  case False
  then obtain txBlock currentBlock where u: "userId d \<noteq> []"
    and tx: "getTransaction env (txHash d) = Some txBlock"
    and cb: "getCurrentBlock env = Inr currentBlock"
    by (cases "getCurrentBlock env") auto
  let ?confs = "currentBlock - txBlock"
  let ?upd1 = "(if ?confs \<noteq> confirmations d then
       (if ?confs \<ge> requiredConfirmations d \<and> status d = pending
        then tryUpdateDepositStatus env s (dep_id d) confirmed (\<lambda>d. d\<lparr>confirmations := ?confs\<rparr>)
        else tryUpdateDepositStatus env s (dep_id d) (status d)
               (\<lambda>d. d\<lparr>confirmations := ?confs\<rparr>))
     else Inr s)"
  have pd: "processDeposit env (s, al) d =
    (case ?upd1 of
       Inl m \<Rightarrow> (s, al)
     | Inr store1 \<Rightarrow>
         if ?confs \<ge> requiredConfirmations d \<and> \<not> orderlyConfirmed d
         then
           (case creditDeposit env store1 d of
              Inr store2 \<Rightarrow> (store2, al)
            | Inl (message, store2) \<Rightarrow>
                (case tryUpdateDepositStatus env store2 (dep_id d) failed
                        (\<lambda>x. x\<lparr>errorMessage := Some message,
                                retryCount := retryCount d + 1\<rparr>) of
                   Inl m \<Rightarrow> (store2, al)
                 | Inr store3 \<Rightarrow>
                     (store3, if retryCount d \<ge> 3 then al @ [dep_id d] else al)))
         else (store1, al))"
    using u tx cb by (simp add: processDeposit_def Let_def)
  show ?thesis
  proof (cases ?upd1)
    case (Inl m)
    then show ?thesis using pd by simp
  next
    case (Inr store1)
    have us1: "users store1 = users s"
      using Inr by (auto dest: tryUpdate_users split: if_splits)
    show ?thesis
    proof (cases "?confs \<ge> requiredConfirmations d \<and> \<not> orderlyConfirmed d")
      case False
      have "processDeposit env (s, al) d = (store1, al)"
        unfolding pd Inr by (simp only: sum.case if_not_P[OF False])
      then show ?thesis using us1 by simp
    next
      case cond: True
      show ?thesis
      proof (cases "creditDeposit env store1 d")
        case (Inr store2)
        from creditDeposit_Inr[OF Inr] have "credit_applied store1 d store2"
          and np: "\<forall>x\<in>set (getPendingDeposits store2). dep_id x \<noteq> dep_id d" by blast+
        then have "credit_applied s d store2" using us1 by (simp add: credit_applied_users)
        moreover have "processDeposit env (s, al) d = (store2, al)"
          using pd \<open>?upd1 = Inr store1\<close> cond Inr by simp
        ultimately show ?thesis using np by simp
      next
        case (Inl p)
        obtain message store2 where p: "p = (message, store2)" by (cases p)
        from creditDeposit_Inl[OF Inl[unfolded p]]
        have c: "users store2 = users store1 \<or> credit_applied store1 d store2" by blast
        define store3 where "store3 = updateDepositStatus store2 (dep_id d) failed
           (\<lambda>x. x\<lparr>errorMessage := Some message, retryCount := retryCount d + 1\<rparr>)"
        have t: "tryUpdateDepositStatus env store2 (dep_id d) failed
           (\<lambda>x. x\<lparr>errorMessage := Some message, retryCount := retryCount d + 1\<rparr>) = Inr store3"
          using w2 by (simp add: tryUpdateDepositStatus_def store3_def)
        have fs: "fst (processDeposit env (s, al) d) = store3"
          using pd \<open>?upd1 = Inr store1\<close> cond Inl p t by simp
        have np: "\<forall>x\<in>set (getPendingDeposits store3). dep_id x \<noteq> dep_id d"
          unfolding store3_def by (rule not_pending_after_status) simp_all
        have us3: "users store3 = users store2" by (simp add: store3_def)
        from c show ?thesis
        proof
          assume "users store2 = users store1"
          then show ?thesis using fs us3 us1 by simp
        next
          assume "credit_applied store1 d store2"
          then have "credit_applied s d store3" using us1 us3 by (rule credit_applied_users)
          then show ?thesis using fs np by simp
        qed
      qed
    qed
  qed
qed

lemma creditDeposit_mirror_fails:
  assumes "fails env (GetUserById (userId d)) = None"
    and "users s (userId d) = Some usr"
    and "fails env (CreditUserDeposit (userId d)) = None"
    and "fails env (Decrypt (encryptedOrderlyPrivateKey usr)) = None"
    and "fails env (CreditAccountBalance (accountId usr)) = Some m"
  shows "creditDeposit env s d =
     Inl (m, s\<lparr>users := (users s)(userId d \<mapsto> credited_user usr (amount d))\<rparr>)"
  using assms by (simp add: creditDeposit_def creditUserDeposit_def credited_user_def)

lemma deposits_after_status:
  assumes "\<And>x. dep_id (upd x) = dep_id x"
  shows "map dep_id (deposits (updateDepositStatus s i st upd)) = map dep_id (deposits s)"
  using assms by (simp add: updateDepositStatus_def comp_def)

lemma status_written:
  assumes "x \<in> set (deposits (updateDepositStatus s i st upd))" and "dep_id x = i"
    and "\<And>y. dep_id (upd y) = dep_id y"
  shows "\<exists>y. x = upd (y\<lparr>status := st\<rparr>)"
  using assms by (auto simp: updateDepositStatus_def split: if_splits)

text \<open>
  Claim C2, amended. When the crediting step of a deposit with an owner and enough
  confirmations fails because the venue mirror call throws (the database calls of the step
  succeeding), the deposit record ends with status failed, its retry count incremented and
  the error message recorded; the alert is raised exactly when the incremented retry count
  exceeds 3; the owner's internal balance has been incremented once; and the record is no
  longer among the pending deposits, so the crediting loop does not read it again until its
  status is reset.
\<close>

theorem mirror_failure_marks_failed:
  assumes u: "userId d \<noteq> []"
    and din: "d \<in> set (deposits s)"
    and tx: "getTransaction env (txHash d) = Some txBlock"
    and cb: "fails env GetBlockNumber = None"
    and conf: "requiredConfirmations d \<le> blockHeight env - txBlock"
    and nc: "\<not> orderlyConfirmed d"
    and usr: "users s (userId d) = Some usr"
    and ok: "fails env (GetUserById (userId d)) = None"
      "fails env (CreditUserDeposit (userId d)) = None"
      "fails env (Decrypt (encryptedOrderlyPrivateKey usr)) = None"
    and mirror: "fails env (CreditAccountBalance (accountId usr)) = Some m"
    and writes: "\<forall>st. fails env (UpdateDepositStatus (dep_id d) st) = None"
  shows "(\<exists>x\<in>set (deposits (fst (processDeposit env (s, al) d))). dep_id x = dep_id d) \<and>
     (\<forall>x\<in>set (deposits (fst (processDeposit env (s, al) d))). dep_id x = dep_id d \<longrightarrow>
        status x = failed \<and> retryCount x = retryCount d + 1 \<and> errorMessage x = Some m) \<and>
     snd (processDeposit env (s, al) d) =
       (if retryCount d + 1 > 3 then al @ [dep_id d] else al) \<and>
     (\<forall>x\<in>set (getPendingDeposits (fst (processDeposit env (s, al) d))).
        dep_id x \<noteq> dep_id d) \<and>
     credit_applied s d (fst (processDeposit env (s, al) d))"
proof -
  define confs where "confs = blockHeight env - txBlock"
  define s1 where "s1 = (if confs \<noteq> confirmations d then
       updateDepositStatus s (dep_id d) (if status d = pending then confirmed else status d)
         (\<lambda>d. d\<lparr>confirmations := confs\<rparr>)
     else s)"
  define s2 where "s2 = s1\<lparr>users := (users s1)(userId d \<mapsto> credited_user usr (amount d))\<rparr>"
  define upd where "upd = (\<lambda>x::Deposit. x\<lparr>errorMessage := Some m, retryCount := retryCount d + 1\<rparr>)"
  define s3 where "s3 = updateDepositStatus s2 (dep_id d) failed upd"
  have updp: "\<And>x. dep_id (upd x) = dep_id x" "\<And>x. status (upd x) = status x"
    by (simp_all add: upd_def)
  have cb': "getCurrentBlock env = Inr (blockHeight env)"
    using cb by (simp add: getCurrentBlock_def)
  have conf': "requiredConfirmations d \<le> confs" using conf by (simp add: confs_def)
  have us1: "users s1 = users s" by (simp add: s1_def)
  have up: "(if confs \<noteq> confirmations d then
             (if confs \<ge> requiredConfirmations d \<and> status d = pending
              then tryUpdateDepositStatus env s (dep_id d) confirmed
                     (\<lambda>d. d\<lparr>confirmations := confs\<rparr>)
              else tryUpdateDepositStatus env s (dep_id d) (status d)
                     (\<lambda>d. d\<lparr>confirmations := confs\<rparr>))
           else Inr s) = Inr s1"
    using writes conf' by (simp add: tryUpdateDepositStatus_def s1_def)
  have cd: "creditDeposit env s1 d = Inl (m, s2)"
    unfolding s2_def by (rule creditDeposit_mirror_fails) (use ok usr mirror us1 in simp_all)
  have t: "tryUpdateDepositStatus env s2 (dep_id d) failed upd = Inr s3"
    using writes by (simp add: tryUpdateDepositStatus_def s3_def)
  have pd: "processDeposit env (s, al) d =
      (s3, if retryCount d \<ge> 3 then al @ [dep_id d] else al)"
    unfolding processDeposit_unfold[OF u tx cb'] confs_def[symmetric] up
    using conf' nc cd t by (simp add: upd_def)
  have ids: "map dep_id (deposits s3) = map dep_id (deposits s)"
    by (simp add: s3_def s2_def s1_def updateDepositStatus_def comp_def upd_def)
  have ex: "\<exists>x\<in>set (deposits s3). dep_id x = dep_id d"
  proof -
    have "dep_id d \<in> set (map dep_id (deposits s3))" using din ids by simp
    then show ?thesis by auto
  qed
  have all: "\<forall>x\<in>set (deposits s3). dep_id x = dep_id d \<longrightarrow>
        status x = failed \<and> retryCount x = retryCount d + 1 \<and> errorMessage x = Some m"
  proof (intro ballI impI)
    fix x assume "x \<in> set (deposits s3)" and "dep_id x = dep_id d"
    then obtain y where "x = upd (y\<lparr>status := failed\<rparr>)"
      using status_written[of x s2 "dep_id d" failed upd] updp by (auto simp: s3_def)
    then show "status x = failed \<and> retryCount x = retryCount d + 1 \<and> errorMessage x = Some m"
      by (simp add: upd_def)
  qed
  have np: "\<forall>x\<in>set (getPendingDeposits s3). dep_id x \<noteq> dep_id d"
    unfolding s3_def using updp by (intro not_pending_after_status) simp_all
  have ca: "credit_applied s d s3"
    using usr us1 by (simp add: credit_applied_def s3_def s2_def)
  show ?thesis unfolding pd using ex all np ca by simp
qed

subsection \<open>One record and one increment per transaction hash\<close>

lemma recordDeposit_second_sighting:
  "getDepositByTxHash store (st_txHash t) \<noteq> None \<Longrightarrow> recordDeposit env cb a store t = store"
  by (auto simp: recordDeposit_def split: option.splits)

lemma recordDeposit_txHashes:
  "recordDeposit env cb a store t = store \<or>
   map txHash (deposits (recordDeposit env cb a store t)) =
     map txHash (deposits store) @ [st_txHash t]"
  by (simp add: recordDeposit_def createDeposit_def Let_def split: option.splits)

lemma recordDeposit_distinct:
  assumes "distinct (map txHash (deposits store))"
  shows "distinct (map txHash (deposits (recordDeposit env cb a store t)))"
proof (cases "recordDeposit env cb a store t = store")
  case True
  then show ?thesis using assms by simp
next
  case False
  then have none: "getDepositByTxHash store (st_txHash t) = None"
    using recordDeposit_second_sighting by blast
  then have fresh: "\<forall>d\<in>set (deposits store). txHash d \<noteq> st_txHash t"
    by (simp add: getDepositByTxHash_def find_None_iff)
  from False recordDeposit_txHashes[of env cb a store t]
  have "map txHash (deposits (recordDeposit env cb a store t)) =
      map txHash (deposits store) @ [st_txHash t]" by blast
  then show ?thesis using assms fresh by auto
qed

lemma foldl_recordDeposit_distinct:
  "distinct (map txHash (deposits store)) \<Longrightarrow>
   distinct (map txHash (deposits (foldl (recordDeposit env cb a) store ts)))"
  by (induction ts arbitrary: store) (simp_all add: recordDeposit_distinct)

lemma scanForNewDeposits_distinct:
  assumes "distinct (map txHash (deposits store))"
  shows "distinct (map txHash (deposits (store_after (scanForNewDeposits env store))))"
proof -
  have "deposits (store_after (scanForNewDeposits env store)) = deposits store \<or>
    (\<exists>cb a ts. deposits (store_after (scanForNewDeposits env store)) =
       deposits (foldl (recordDeposit env cb a) store ts))"
    by (auto simp: scanForNewDeposits_def Let_def updatePlatformWalletBlock_def
        split: option.splits sum.splits)
  then show ?thesis using assms foldl_recordDeposit_distinct by auto
qed

text \<open>
  Claim C1, as stated, fails on the code: the pending check is the only guard, and the flag it
  reads is written after the balance. In a tick whose status writes throw (the balance write
  having succeeded), the deposit stays confirmed and not yet \<^verbatim>\<open>orderlyConfirmed\<close>, so the next
  tick credits it again: a deposit of 50 leaves a balance of 100, with one deposit record.
\<close>

theorem interrupted_credit_applied_twice:
  "amount alice_deposit = 50 \<and> internalBalance alice = 0 \<and>
   map_option internalBalance
     (users (fst (processPendingDeposits (chain_117 status_writes_fail) store_alice)) ''alice'')
     = Some 50 \<and>
   getPendingDeposits (fst (processPendingDeposits (chain_117 status_writes_fail) store_alice))
     = [alice_deposit] \<and>
   map_option internalBalance
     (users (fst (processPendingDeposits (chain_117 no_failure)
        (fst (processPendingDeposits (chain_117 status_writes_fail) store_alice)))) ''alice'')
     = Some 100 \<and>
   map txHash (deposits (fst (processPendingDeposits (chain_117 no_failure)
        (fst (processPendingDeposits (chain_117 status_writes_fail) store_alice)))))
     = [''0xabc'']"
  by (simp add: credit_tick_defs credit_scenario_defs)

text \<open>
  Claim C1, amended. A scan tick keeps the transaction hashes of the deposit records
  distinct, and a transfer whose hash is already recorded leaves the store as it is (a second
  sighting creates no second record). A crediting step whose closing status write (credited,
  or failed after an error) does not throw either leaves the user documents as they are, or
  credits the owner exactly once with the deposit amount and takes the deposit out of the
  pending set, which is all the crediting loop reads on later ticks.
\<close>

theorem deposit_applied_once:
  "(distinct (map txHash (deposits store)) \<longrightarrow>
      distinct (map txHash (deposits (store_after (scanForNewDeposits env store))))) \<and>
   (getDepositByTxHash store (st_txHash t) \<noteq> None \<longrightarrow>
      recordDeposit env cb a store t = store) \<and>
   (fails env (UpdateDepositStatus (dep_id d) credited) = None \<and>
    fails env (UpdateDepositStatus (dep_id d) failed) = None \<longrightarrow>
      users (fst (processDeposit env (store, al) d)) = users store \<or>
      (credit_applied store d (fst (processDeposit env (store, al) d)) \<and>
       (\<forall>x\<in>set (getPendingDeposits (fst (processDeposit env (store, al) d))).
          dep_id x \<noteq> dep_id d)))"
  using scanForNewDeposits_distinct recordDeposit_second_sighting credit_once by blast

theorem deposit_applied_once_witness:
  "distinct (map txHash (deposits store_alice)) \<and>
   distinct (map txHash (deposits (store_after (scanForNewDeposits (chain_117 no_failure)
      store_alice)))) \<and>
   getDepositByTxHash store_alice (st_txHash (toScanned 6 transfer_105)) \<noteq> None \<and>
   recordDeposit (chain_117 no_failure) 117 ''0xplatform'' store_alice (toScanned 6 transfer_105)
     = store_alice \<and>
   fails (chain_117 no_failure) (UpdateDepositStatus (dep_id alice_deposit) credited) = None \<and>
   fails (chain_117 no_failure) (UpdateDepositStatus (dep_id alice_deposit) failed) = None \<and>
   users (fst (processDeposit (chain_117 no_failure) (store_alice, []) alice_deposit))
     \<noteq> users store_alice \<and>
   credit_applied store_alice alice_deposit
     (fst (processDeposit (chain_117 no_failure) (store_alice, []) alice_deposit)) \<and>
   getPendingDeposits
     (fst (processDeposit (chain_117 no_failure) (store_alice, []) alice_deposit)) = [] \<and>
   map_option internalBalance
     (users (fst (processPendingDeposits (chain_117 no_failure)
        (fst (processPendingDeposits (chain_117 no_failure) store_alice)))) ''alice'')
     = Some 50"
proof -
  have h1: "distinct (map txHash (deposits store_alice))"
    by (simp add: store_alice_def)
  have h2: "getDepositByTxHash store_alice (st_txHash (toScanned 6 transfer_105)) \<noteq> None"
    by (simp add: getDepositByTxHash_def toScanned_def credit_scenario_defs)
  have h3: "fails (chain_117 no_failure) (UpdateDepositStatus (dep_id alice_deposit) credited)
      = None"
    "fails (chain_117 no_failure) (UpdateDepositStatus (dep_id alice_deposit) failed) = None"
    by (simp_all add: chain_117_def no_failure_def)
  have ch: "users (fst (processDeposit (chain_117 no_failure) (store_alice, []) alice_deposit))
      \<noteq> users store_alice"
  proof
    assume "users (fst (processDeposit (chain_117 no_failure) (store_alice, []) alice_deposit))
      = users store_alice"
    then have "map_option internalBalance
        (users (fst (processDeposit (chain_117 no_failure) (store_alice, []) alice_deposit))
           ''alice'') =
      map_option internalBalance (users store_alice ''alice'')" by simp
    then show False by (simp add: credit_tick_defs credit_scenario_defs)
  qed
  have rerun: "map_option internalBalance
     (users (fst (processPendingDeposits (chain_117 no_failure)
        (fst (processPendingDeposits (chain_117 no_failure) store_alice)))) ''alice'')
     = Some 50"
    by (simp add: credit_tick_defs credit_scenario_defs)
  have np: "getPendingDeposits
     (fst (processDeposit (chain_117 no_failure) (store_alice, []) alice_deposit)) = []"
    by (simp add: credit_tick_defs credit_scenario_defs)
  from deposit_applied_once
         [of store_alice "chain_117 no_failure" "toScanned 6 transfer_105" 117 "''0xplatform''"
             alice_deposit "[]"]
  show ?thesis using h1 h2 h3 ch rerun np by blast
qed

text \<open>
  Claim C2, as stated, fails on the code: after a mirror failure the status of the confirmed
  deposit is failed, not confirmed, and the deposit is no longer returned by
  \<^verbatim>\<open>getPendingDeposits\<close>; a further tick leaves the store as it is and raises no alert.
\<close>

theorem mirror_failure_leaves_pending_set:
  "getPendingDeposits store_alice = [alice_deposit] \<and> status alice_deposit = confirmed \<and>
   map status (deposits (fst (processPendingDeposits (chain_117 mirror_fails) store_alice)))
     = [failed] \<and>
   map retryCount (deposits (fst (processPendingDeposits (chain_117 mirror_fails) store_alice)))
     = [1] \<and>
   getPendingDeposits (fst (processPendingDeposits (chain_117 mirror_fails) store_alice)) = [] \<and>
   processPendingDeposits (chain_117 mirror_fails)
     (fst (processPendingDeposits (chain_117 mirror_fails) store_alice)) =
   (fst (processPendingDeposits (chain_117 mirror_fails) store_alice), [])"
  by (simp add: credit_tick_defs credit_scenario_defs)

theorem mirror_failure_marks_failed_witness:
  "userId alice_deposit \<noteq> [] \<and> alice_deposit \<in> set (deposits store_alice) \<and>
   getTransaction (chain_117 mirror_fails) (txHash alice_deposit) = Some 105 \<and>
   requiredConfirmations alice_deposit \<le> blockHeight (chain_117 mirror_fails) - 105 \<and>
   \<not> orderlyConfirmed alice_deposit \<and> users store_alice (userId alice_deposit) = Some alice \<and>
   fails (chain_117 mirror_fails) (CreditAccountBalance (accountId alice)) =
     Some ''Orderly credit error: timeout'' \<and>
   (\<exists>x. deposits (fst (processDeposit (chain_117 mirror_fails) (store_alice, [])
        alice_deposit)) = [x] \<and>
      dep_id x = dep_id alice_deposit \<and>
      status x = failed \<and> retryCount x = retryCount alice_deposit + 1 \<and>
      errorMessage x = Some ''Orderly credit error: timeout'') \<and>
   snd (processDeposit (chain_117 mirror_fails) (store_alice, []) alice_deposit) = [] \<and>
   snd (processDeposit (chain_117 mirror_fails)
          (store_alice\<lparr>deposits := [alice_deposit\<lparr>retryCount := 3\<rparr>]\<rparr>, [])
          (alice_deposit\<lparr>retryCount := 3\<rparr>)) = [0]"
proof -
  have pre: "userId alice_deposit \<noteq> []" "alice_deposit \<in> set (deposits store_alice)"
    "getTransaction (chain_117 mirror_fails) (txHash alice_deposit) = Some 105"
    "fails (chain_117 mirror_fails) GetBlockNumber = None"
    "requiredConfirmations alice_deposit \<le> blockHeight (chain_117 mirror_fails) - 105"
    "\<not> orderlyConfirmed alice_deposit"
    "users store_alice (userId alice_deposit) = Some alice"
    "fails (chain_117 mirror_fails) (GetUserById (userId alice_deposit)) = None"
    "fails (chain_117 mirror_fails) (CreditUserDeposit (userId alice_deposit)) = None"
    "fails (chain_117 mirror_fails) (Decrypt (encryptedOrderlyPrivateKey alice)) = None"
    "fails (chain_117 mirror_fails) (CreditAccountBalance (accountId alice)) =
       Some ''Orderly credit error: timeout''"
    "\<forall>st. fails (chain_117 mirror_fails) (UpdateDepositStatus (dep_id alice_deposit) st) = None"
    by (simp_all add: getTransaction_def credit_scenario_defs)
  let ?d3 = "alice_deposit\<lparr>retryCount := 3\<rparr>"
  let ?s3 = "store_alice\<lparr>deposits := [?d3]\<rparr>"
  have pre3: "userId ?d3 \<noteq> []" "?d3 \<in> set (deposits ?s3)"
    "getTransaction (chain_117 mirror_fails) (txHash ?d3) = Some 105"
    "fails (chain_117 mirror_fails) GetBlockNumber = None"
    "requiredConfirmations ?d3 \<le> blockHeight (chain_117 mirror_fails) - 105"
    "\<not> orderlyConfirmed ?d3"
    "users ?s3 (userId ?d3) = Some alice"
    "fails (chain_117 mirror_fails) (GetUserById (userId ?d3)) = None"
    "fails (chain_117 mirror_fails) (CreditUserDeposit (userId ?d3)) = None"
    "fails (chain_117 mirror_fails) (Decrypt (encryptedOrderlyPrivateKey alice)) = None"
    "fails (chain_117 mirror_fails) (CreditAccountBalance (accountId alice)) =
       Some ''Orderly credit error: timeout''"
    "\<forall>st. fails (chain_117 mirror_fails) (UpdateDepositStatus (dep_id ?d3) st) = None"
    by (simp_all add: getTransaction_def credit_scenario_defs)
  have rc: "retryCount alice_deposit = 0" "retryCount ?d3 = 3" "dep_id ?d3 = 0"
    by (simp_all add: alice_deposit_def)
  note a = mirror_failure_marks_failed[OF pre, of "[]"]
  note b = mirror_failure_marks_failed[OF pre3, of "[]"]
  from a have a1: "\<forall>x\<in>set (deposits (fst (processDeposit (chain_117 mirror_fails)
        (store_alice, []) alice_deposit))).
      dep_id x = dep_id alice_deposit \<longrightarrow>
        status x = failed \<and> retryCount x = retryCount alice_deposit + 1 \<and>
        errorMessage x = Some ''Orderly credit error: timeout''"
    and a2: "snd (processDeposit (chain_117 mirror_fails) (store_alice, []) alice_deposit) = []"
    using rc by simp_all
  from b have b2: "snd (processDeposit (chain_117 mirror_fails) (?s3, []) ?d3) = [0]"
    using rc by simp
  from a obtain x where x: "x \<in> set (deposits (fst (processDeposit (chain_117 mirror_fails)
        (store_alice, []) alice_deposit)))" "dep_id x = dep_id alice_deposit"
    by blast
  have "length (deposits (fst (processDeposit (chain_117 mirror_fails)
        (store_alice, []) alice_deposit))) = 1"
    by (simp add: credit_tick_defs credit_scenario_defs)
  then obtain y where "deposits (fst (processDeposit (chain_117 mirror_fails)
        (store_alice, []) alice_deposit)) = [y]"
    by (auto simp: length_Suc_conv)
  with x have one: "deposits (fst (processDeposit (chain_117 mirror_fails)
        (store_alice, []) alice_deposit)) = [x]" by simp
  from a1 x have "status x = failed \<and> retryCount x = retryCount alice_deposit + 1 \<and>
        errorMessage x = Some ''Orderly credit error: timeout''" by blast
  with one x(2) have ex: "\<exists>x. deposits (fst (processDeposit (chain_117 mirror_fails)
        (store_alice, []) alice_deposit)) = [x] \<and>
      dep_id x = dep_id alice_deposit \<and>
      status x = failed \<and> retryCount x = retryCount alice_deposit + 1 \<and>
      errorMessage x = Some ''Orderly credit error: timeout''" by blast
  show ?thesis using pre ex a2 b2 by blast
qed

section \<open>Properties of the registration message\<close>

text \<open>
  Claim C3. The registration message is to have exactly the four fields of the
  specification under the off-chain domain. \<^verbatim>\<open>WalletService.signRegistrationMessage\<close> signs
  that schema under that domain. \<^verbatim>\<open>OrderlyWallet.signRegistration\<close> signs under the same
  domain, but its type table \<^verbatim>\<open>REGISTRATION_TYPES\<close> has five fields: an additional
  \<^verbatim>\<open>chainType:string\<close> in third place, and \<^verbatim>\<open>registrationNonce\<close> typed \<^verbatim>\<open>uint64\<close> where the
  specification says \<^verbatim>\<open>uint256\<close>.
\<close>

theorem registration_schema_differs:
  "signRegistrationMessage_types = Registration_schema_spec \<and>
   signRegistrationMessage_domain chainId = Registration_domain_spec chainId \<and>
   signRegistration_domain chainId = Registration_domain_spec chainId \<and>
   signRegistration_types \<noteq> Registration_schema_spec \<and>
   length signRegistration_types = 5 \<and>
   map field_name signRegistration_types =
     [''brokerId'', ''chainId'', ''chainType'', ''timestamp'', ''registrationNonce''] \<and>
   map field_type signRegistration_types =
     [''string'', ''uint256'', ''string'', ''uint64'', ''uint64'']"
  by (simp add: signRegistrationMessage_types_def Registration_schema_spec_def
      signRegistrationMessage_domain_def Registration_domain_spec_def
      signRegistration_domain_def createDomain_def OFF_CHAIN_VERIFYING_CONTRACT_def
      signRegistration_types_def REGISTRATION_TYPES_def)

section \<open>Properties of the request signer\<close>

lemma b64_lt: "unat (a::byte) div 4 < 64" "unat (a::byte) mod 4 * 16 + unat (b::byte) div 16 < 64"
  "unat (b::byte) mod 16 * 4 + unat (c::byte) div 64 < 64" "unat (c::byte) mod 64 < 64"
  "unat (a::byte) mod 4 * 16 < 64" "unat (b::byte) mod 16 * 4 < 64"
proof -
  have a: "unat a < 256" and b: "unat b < 256" and c: "unat c < 256"
    using unsigned_less[of a, where 'a=nat] unsigned_less[of b, where 'a=nat]
      unsigned_less[of c, where 'a=nat] by simp_all
  show "unat a div 4 < 64" using a by simp
  show "unat a mod 4 * 16 + unat b div 16 < 64" using b by arith
  show "unat b mod 16 * 4 + unat c div 64 < 64" using c by arith
  show "unat c mod 64 < 64" by simp
  show "unat a mod 4 * 16 < 64" by arith
  show "unat b mod 16 * 4 < 64" by arith
qed

lemma replace_twice:
  "replace_all CHR ''/'' CHR ''_'' (replace_all CHR ''+'' CHR ''-'' s) = map to_url s"
  by (simp add: replace_all_def to_url_def comp_def)

lemma alphabet_to_url: "map to_url base64_alphabet = base64url_alphabet"
  by (simp add: base64_alphabet_def base64url_alphabet_def to_url_def)

lemma to_url_b64: "n < 64 \<Longrightarrow> to_url (b64 n) = b64url n"
proof -
  assume n: "n < 64"
  have len: "length base64_alphabet = 64" by (simp add: base64_alphabet_def)
  have "b64url n = (map to_url base64_alphabet) ! n"
    by (simp add: b64url_def alphabet_to_url)
  also have "\<dots> = to_url (base64_alphabet ! n)" using n len by simp
  finally show ?thesis by (simp add: b64_def)
qed

lemma b64url_mem: "n < 64 \<Longrightarrow> b64url n \<in> set base64url_alphabet"
proof -
  assume "n < 64"
  moreover have "length base64url_alphabet = 64" by (simp add: base64url_alphabet_def)
  ultimately show ?thesis unfolding b64url_def by (intro nth_mem) simp
qed

lemma equals_not_url: "CHR ''='' \<notin> set base64url_alphabet"
  by (simp add: base64url_alphabet_def)

lemma b64url_not_equals: "n < 64 \<Longrightarrow> b64url n \<noteq> CHR ''=''"
  using b64url_mem equals_not_url by metis

lemma to_url_equals: "to_url CHR ''='' = CHR ''=''"
  by (simp add: to_url_def)

lemma strip_append:
  assumes "xs \<noteq> []" and "last xs \<noteq> CHR ''=''"
  shows "strip_trailing_equals (xs @ ys) = xs @ strip_trailing_equals ys"
proof -
  have hd: "hd (rev xs) \<noteq> CHR ''=''" and ne: "rev xs \<noteq> []"
    using assms by (simp_all add: hd_rev)
  then have keep: "dropWhile (\<lambda>c. c = CHR ''='') (rev xs) = rev xs"
    by (cases "rev xs") simp_all
  have "dropWhile (\<lambda>c. c = CHR ''='') (rev ys @ rev xs) =
      dropWhile (\<lambda>c. c = CHR ''='') (rev ys) @ rev xs"
  proof (cases "\<forall>c\<in>set (rev ys). c = CHR ''=''")
    case True
    have "dropWhile (\<lambda>c. c = CHR ''='') (rev ys @ rev xs) =
        dropWhile (\<lambda>c. c = CHR ''='') (rev xs)"
      by (rule dropWhile_append2) (use True in auto)
    moreover have "dropWhile (\<lambda>c. c = CHR ''='') (rev ys) = []" using True by simp
    ultimately show ?thesis using keep by simp
  next
    case False
    then obtain c where "c \<in> set (rev ys)" "c \<noteq> CHR ''=''" by blast
    then show ?thesis by simp
  qed
  then show ?thesis by (simp add: strip_trailing_equals_def)
qed

lemma url_safe_is_base64url:
  "strip_trailing_equals (map to_url (base64 bs)) = base64url_unpadded bs"
proof (induction bs rule: base64.induct)
  case (1 a b c rest)
  let ?q = "[b64url (unat a div 4), b64url (unat a mod 4 * 16 + unat b div 16),
      b64url (unat b mod 16 * 4 + unat c div 64), b64url (unat c mod 64)]"
  have "map to_url (base64 (a # b # c # rest)) = ?q @ map to_url (base64 rest)"
    by (simp add: to_url_b64 b64_lt)
  moreover have "strip_trailing_equals (?q @ map to_url (base64 rest)) =
      ?q @ strip_trailing_equals (map to_url (base64 rest))"
    by (rule strip_append) (simp_all add: b64url_not_equals b64_lt)
  ultimately show ?case using 1 by simp
next
  case (2 a b)
  have "map to_url (base64 [a, b]) =
      [b64url (unat a div 4), b64url (unat a mod 4 * 16 + unat b div 16),
       b64url (unat b mod 16 * 4)] @ [CHR ''='']"
    by (simp add: to_url_b64 b64_lt to_url_equals)
  then show ?case
    using strip_append[of "[b64url (unat a div 4), b64url (unat a mod 4 * 16 + unat b div 16),
       b64url (unat b mod 16 * 4)]" "[CHR ''='']"]
    by (simp add: b64url_not_equals b64_lt strip_trailing_equals_def)
next
  case (3 a)
  have "map to_url (base64 [a]) =
      [b64url (unat a div 4), b64url (unat a mod 4 * 16)] @ [CHR ''='', CHR ''='']"
    by (simp add: to_url_b64 b64_lt to_url_equals)
  then show ?case
    using strip_append[of "[b64url (unat a div 4), b64url (unat a mod 4 * 16)]"
        "[CHR ''='', CHR ''='']"]
    by (simp add: b64url_not_equals b64_lt strip_trailing_equals_def)
next
  case 4
  then show ?case by (simp add: strip_trailing_equals_def)
qed

lemma base64url_unpadded_chars:
  "c \<in> set (base64url_unpadded bs) \<Longrightarrow> c \<in> set base64url_alphabet"
  by (induction bs rule: base64url_unpadded.induct) (auto simp: b64url_mem b64_lt)

lemma signMessage_base64url:
  "signMessage signAsync entropy privateKey message =
     base64url_unpadded (signAsync entropy (TextEncoder_encode message) privateKey)"
  by (simp add: signMessage_def Let_def replace_twice url_safe_is_base64url)

lemma digit_char_not_ws: "n < 10 \<Longrightarrow> \<not> is_whitespace (digit_char n)"
proof -
  assume "n < 10"
  moreover have "length ''0123456789'' = 10" by simp
  ultimately have "digit_char n \<in> set ''0123456789''"
    unfolding digit_char_def by (intro nth_mem) simp
  then show ?thesis by (auto simp: is_whitespace_def)
qed

lemma show_nat_not_ws: "c \<in> set (show_nat n) \<Longrightarrow> \<not> is_whitespace c"
proof (induction n rule: show_nat.induct)
  case (1 n)
  show ?case
  proof (cases "n < 10")
    case True
    then show ?thesis using 1(2) by (subst (asm) show_nat.simps) (simp add: digit_char_not_ws)
  next
    case False
    have "n mod 10 < 10" by simp
    then have "\<not> is_whitespace (digit_char (n mod 10))" by (rule digit_char_not_ws)
    then show ?thesis using 1 False by (subst (asm) (2) show_nat.simps) auto
  qed
qed

lemma show_int_not_ws: "c \<in> set (show_int i) \<Longrightarrow> \<not> is_whitespace c"
  by (auto simp: show_int_def is_whitespace_def dest: show_nat_not_ws split: if_splits)

lemma hex_char_not_ws: "n < 16 \<Longrightarrow> \<not> is_whitespace (hex_char n)"
proof -
  assume "n < 16"
  moreover have "length ''0123456789abcdef'' = 16" by simp
  ultimately have "hex_char n \<in> set ''0123456789abcdef''"
    unfolding hex_char_def by (intro nth_mem) simp
  then show ?thesis by (auto simp: is_whitespace_def)
qed

lemma escape_char_ws:
  assumes "c' \<in> set (escape_char c)" and "is_whitespace c'"
  shows "c' = CHR 0x20 \<and> c = CHR 0x20"
proof (cases "(of_char c :: nat) < 32")
  case True
  then have h: "(of_char c :: nat) div 16 < 16" "(of_char c :: nat) mod 16 < 16" by simp_all
  have "\<not> is_whitespace (hex_char (of_char c div 16))"
    "\<not> is_whitespace (hex_char (of_char c mod 16))"
    using h by (simp_all add: hex_char_not_ws)
  moreover have "c \<noteq> CHR 0x20" using True by auto
  ultimately show ?thesis using assms True
    by (auto simp: escape_char_def is_whitespace_def split: if_splits)
next
  case False
  then have "c \<noteq> CHR 0x09" "c \<noteq> CHR 0x0A" "c \<noteq> CHR 0x0D" by auto
  then show ?thesis using assms False
    by (auto simp: escape_char_def is_whitespace_def split: if_splits)
qed

lemma quoteJSONString_ws:
  assumes "c \<in> set (quoteJSONString s)" and "is_whitespace c"
  shows "c = CHR 0x20 \<and> CHR 0x20 \<in> set s"
proof -
  have "c \<noteq> CHR 0x22" using assms(2) by (auto simp: is_whitespace_def)
  then obtain x where "x \<in> set s" "c \<in> set (escape_char x)"
    using assms(1) by (auto simp: quoteJSONString_def)
  then show ?thesis using escape_char_ws[OF _ assms(2)] by auto
qed

lemma join_comma_set: "c \<in> set (join_comma xs) \<Longrightarrow> c = CHR '','' \<or> (\<exists>x\<in>set xs. c \<in> set x)"
  by (induction xs rule: join_comma.induct) auto

lemma JSON_stringify_ws:
  "c \<in> set (JSON_stringify j) \<Longrightarrow> is_whitespace c \<Longrightarrow>
   c = CHR 0x20 \<and> (\<exists>s\<in>set (json_strings j). CHR 0x20 \<in> set s)"
proof (induction j rule: JSON_stringify.induct)
  case 1
  then show ?case by (auto simp: is_whitespace_def)
next
  case (2 b)
  then show ?case by (auto simp: is_whitespace_def split: if_splits)
next
  case (3 n)
  then show ?case using show_int_not_ws by auto
next
  case (4 s)
  then show ?case using quoteJSONString_ws by auto
next
  case (5 xs)
  have ne: "c \<noteq> CHR ''[''" "c \<noteq> CHR '']''" "c \<noteq> CHR '',''"
    using 5(3) by (auto simp: is_whitespace_def)
  from 5(2) ne have "c \<in> set (join_comma (map JSON_stringify xs))" by simp
  from join_comma_set[OF this] ne obtain x where x: "x \<in> set xs" "c \<in> set (JSON_stringify x)"
    by auto
  from 5(1)[OF x 5(3)] x(1) show ?case by auto
next
  case (6 kvs)
  have ne: "c \<noteq> CHR ''{''" "c \<noteq> CHR ''}''" "c \<noteq> CHR '',''" "c \<noteq> CHR '':''"
    using 6(3) by (auto simp: is_whitespace_def)
  from 6(2) ne have "c \<in> set (join_comma
      (map (\<lambda>kv. quoteJSONString (fst kv) @ CHR '':'' # JSON_stringify (snd kv)) kvs))"
    by simp
  from join_comma_set[OF this] ne obtain kv where kv: "kv \<in> set kvs"
    "c \<in> set (quoteJSONString (fst kv) @ CHR '':'' # JSON_stringify (snd kv))"
    by auto
  then consider "c \<in> set (quoteJSONString (fst kv))" | "c \<in> set (JSON_stringify (snd kv))"
    using ne by auto
  then show ?case
  proof cases
    case 1
    then show ?thesis using quoteJSONString_ws[OF 1 6(3)] kv(1) by force
  next
    case 2
    from 6(1)[OF kv(1) 2 6(3)] kv(1) show ?thesis by force
  qed
qed

text \<open>
  Claim C5, as stated, fails on the code in its clause on GET and DELETE: the signer omits
  the body when none (or a falsy one) is passed, and never looks at the method. A GET or a
  DELETE with a body has the serialised body in its canonical string. The JSON text is
  compact, but a space inside a string value stays in the canonical string.
\<close>

theorem canonical_body_kept_for_GET:
  "canonical_of 1700000000000 GET ''/v1/orders'' (Some (JObj [(''symbol'', JStr ''PERP_ETH'')])) =
     ''1700000000000GET/v1/orders{'' @ [CHR 0x22] @ ''symbol'' @ [CHR 0x22] @ '':'' @
     [CHR 0x22] @ ''PERP_ETH'' @ [CHR 0x22] @ ''}'' \<and>
   canonical_of 1700000000000 DELETE ''/v1/order'' (Some (JObj [(''order_id'', JNum 7)])) =
     ''1700000000000DELETE/v1/order{'' @ [CHR 0x22] @ ''order_id'' @ [CHR 0x22] @ '':7}'' \<and>
   canonical_of 1700000000000 GET ''/v1/orders'' None = ''1700000000000GET/v1/orders'' \<and>
   CHR 0x20 \<in> set (canonical_of 1700000000000 POST ''/v1/order''
                       (Some (JObj [(''order_tag'', JStr ''my tag'')])))"
  by (simp add: canonical_of_def constructCanonicalString_def bodyString_def show_int_def
      show_nat.simps digit_char_def quoteJSONString_def escape_char_def)

text \<open>
  Claim C5, amended. The canonical string is the decimal timestamp, then the method (one of
  the four upper-case literals), then the path, then the compact JSON text of the body, with
  nothing in between; the body component is absent exactly when no body or a falsy body is
  passed, whatever the method. The JSON text has no whitespace other than spaces that occur
  inside string values or keys of the body. When the timestamp check passes, the signature
  header is the URL-safe base64 text, without padding, of the Ed25519 signature over the
  UTF-8 bytes of the canonical string, and consists of URL-safe characters only.
\<close>

theorem canonical_string_signed:
  "canonical_of ts m p body =
     show_int ts @ method_string m @ p @
     (case body of None \<Rightarrow> [] | Some j \<Rightarrow> if truthy j then JSON_stringify j else []) \<and>
   method_string m \<in> {''GET'', ''POST'', ''PUT'', ''DELETE''} \<and>
   (\<forall>c\<in>set (JSON_stringify j). is_whitespace c \<longrightarrow>
      c = CHR 0x20 \<and> (\<exists>s\<in>set (json_strings j). CHR 0x20 \<in> set s)) \<and>
   (validateTimestamp clock' clock = Inr () \<longrightarrow>
      (\<exists>h. generateAuthHeaders signAsync entropy auth clock clock' m p body recvWindow = Inr h \<and>
           orderly_timestamp h = show_int clock \<and>
           orderly_signature h =
             base64url_unpadded
               (signAsync entropy (TextEncoder_encode (canonical_of clock m p body))
                  (auth_privateKey auth)) \<and>
           (\<forall>c\<in>set (orderly_signature h). c \<in> set base64url_alphabet)))"
proof (intro conjI)
  show "canonical_of ts m p body =
     show_int ts @ method_string m @ p @
     (case body of None \<Rightarrow> [] | Some j \<Rightarrow> if truthy j then JSON_stringify j else [])"
    by (simp add: canonical_of_def constructCanonicalString_def bodyString_def
        split: option.splits)
  show "method_string m \<in> {''GET'', ''POST'', ''PUT'', ''DELETE''}"
    by (cases m) simp_all
  show "\<forall>c\<in>set (JSON_stringify j). is_whitespace c \<longrightarrow>
      c = CHR 0x20 \<and> (\<exists>s\<in>set (json_strings j). CHR 0x20 \<in> set s)"
    using JSON_stringify_ws by blast
  show "validateTimestamp clock' clock = Inr () \<longrightarrow>
      (\<exists>h. generateAuthHeaders signAsync entropy auth clock clock' m p body recvWindow = Inr h \<and>
           orderly_timestamp h = show_int clock \<and>
           orderly_signature h =
             base64url_unpadded
               (signAsync entropy (TextEncoder_encode (canonical_of clock m p body))
                  (auth_privateKey auth)) \<and>
           (\<forall>c\<in>set (orderly_signature h). c \<in> set base64url_alphabet))"
    by (auto simp: generateAuthHeaders_def Let_def signMessage_base64url
        dest: base64url_unpadded_chars)
qed

theorem canonical_string_signed_witness:
  "canonical_of 5 POST ''/o'' (Some (JNum 7)) = ''5POST/o7'' \<and>
   validateTimestamp 6 5 = Inr () \<and>
   (\<exists>h. generateAuthHeaders echo_sign 0 test_auth 5 6 POST ''/o'' (Some (JNum 7)) None = Inr h \<and>
        orderly_timestamp h = ''5'' \<and>
        orderly_signature h =
          base64url_unpadded (echo_sign 0 (TextEncoder_encode ''5POST/o7'') [251, 255]) \<and>
        (\<forall>c\<in>set (orderly_signature h). c \<in> set base64url_alphabet)) \<and>
   CHR 0x20 \<in> set (JSON_stringify (JStr ''a b'')) \<and> is_whitespace (CHR 0x20) \<and>
   (\<exists>s\<in>set (json_strings (JStr ''a b'')). CHR 0x20 \<in> set s)"
proof -
  have c: "canonical_of 5 POST ''/o'' (Some (JNum 7)) = ''5POST/o7''"
    by (simp add: canonical_of_def constructCanonicalString_def bodyString_def show_int_def
        show_nat.simps digit_char_def)
  have v: "validateTimestamp 6 5 = Inr ()"
    by (simp add: validateTimestamp_def TIMESTAMP_WINDOW_MS_def)
  have s: "show_int 5 = ''5''" by (simp add: show_int_def show_nat.simps digit_char_def)
  have k: "auth_privateKey test_auth = [251, 255]" by (simp add: test_auth_def)
  note t = canonical_string_signed
         [of 5 POST "''/o''" "Some (JNum 7)" "JStr ''a b''" 6 5 echo_sign 0 test_auth None]
  from t have ws: "\<forall>c\<in>set (JSON_stringify (JStr ''a b'')). is_whitespace c \<longrightarrow>
      c = CHR 0x20 \<and> (\<exists>s\<in>set (json_strings (JStr ''a b'')). CHR 0x20 \<in> set s)"
    by blast
  from t v obtain h where
    h: "generateAuthHeaders echo_sign 0 test_auth 5 6 POST ''/o'' (Some (JNum 7)) None = Inr h"
      "orderly_timestamp h = show_int 5"
      "orderly_signature h =
         base64url_unpadded
           (echo_sign 0 (TextEncoder_encode (canonical_of 5 POST ''/o'' (Some (JNum 7))))
              (auth_privateKey test_auth))"
      "\<forall>c\<in>set (orderly_signature h). c \<in> set base64url_alphabet"
    by blast
  from h(2) have h2: "orderly_timestamp h = ''5''" unfolding s .
  from h(3) have h3: "orderly_signature h =
      base64url_unpadded (echo_sign 0 (TextEncoder_encode ''5POST/o7'') [251, 255])"
    unfolding c k .
  have sp: "CHR 0x20 \<in> set (JSON_stringify (JStr ''a b''))" "is_whitespace (CHR 0x20)"
    by (simp_all add: quoteJSONString_def escape_char_def is_whitespace_def)
  with ws have ex: "\<exists>s\<in>set (json_strings (JStr ''a b'')). CHR 0x20 \<in> set s" by blast
  show ?thesis using c v sp ex h(1) h2 h3 h(4) by blast
qed

text \<open>
  Claim C8. For a fixed tuple of method, path, body, timestamp and key, two runs of the
  signing function give the same signature text, provided the Ed25519 signing function of
  the library is itself deterministic (its result does not depend on anything but the
  message and the key): the signer adds no other source of variation. The same holds for
  the headers built from the same clock readings.
\<close>

theorem request_signature_deterministic:
  "(\<forall>r r' msg k. signAsync r msg k = signAsync r' msg k) \<longrightarrow>
   signMessage signAsync entropy key (canonical_of ts m p body) =
     signMessage signAsync entropy' key (canonical_of ts m p body) \<and>
   generateAuthHeaders signAsync entropy auth ts clock' m p body recvWindow =
     generateAuthHeaders signAsync entropy' auth ts clock' m p body recvWindow"
proof
  assume d: "\<forall>r r' msg k. signAsync r msg k = signAsync r' msg k"
  then have "\<And>msg k. signAsync entropy msg k = signAsync entropy' msg k" by blast
  then have s: "\<And>k msg. signMessage signAsync entropy k msg = signMessage signAsync entropy' k msg"
    by (simp add: signMessage_def Let_def)
  show "signMessage signAsync entropy key (canonical_of ts m p body) =
     signMessage signAsync entropy' key (canonical_of ts m p body) \<and>
   generateAuthHeaders signAsync entropy auth ts clock' m p body recvWindow =
     generateAuthHeaders signAsync entropy' auth ts clock' m p body recvWindow"
    by (simp only: generateAuthHeaders_def s)
qed

theorem request_signature_deterministic_witness:
  "(\<forall>r r' msg k. echo_sign r msg k = echo_sign r' msg k) \<and>
   signMessage echo_sign 1 [251, 255] (canonical_of 5 POST ''/o'' (Some (JNum 7))) =
     signMessage echo_sign 2 [251, 255] (canonical_of 5 POST ''/o'' (Some (JNum 7))) \<and>
   generateAuthHeaders echo_sign 1 test_auth 5 6 POST ''/o'' (Some (JNum 7)) None =
     generateAuthHeaders echo_sign 2 test_auth 5 6 POST ''/o'' (Some (JNum 7)) None"
proof -
  have h: "\<forall>r r' msg k. echo_sign r msg k = echo_sign r' msg k"
    by (simp add: echo_sign_def)
  from request_signature_deterministic
         [of echo_sign 1 "[251, 255]" 5 POST "''/o''" "Some (JNum 7)" 2 test_auth 6 None] h
  show ?thesis by blast
qed

section \<open>Properties of the envelope\<close>

lemma index_of_nth: "distinct xs \<Longrightarrow> n < length xs \<Longrightarrow> index_of xs (xs ! n) = n"
proof (induction xs arbitrary: n)
  case Nil
  then show ?case by simp
next
  case (Cons x xs)
  show ?case
  proof (cases n)
    case 0
    then show ?thesis by simp
  next
    case (Suc k)
    then have "xs ! k \<in> set xs" using Cons.prems by simp
    then have "x \<noteq> xs ! k" using Cons.prems by auto
    then show ?thesis using Suc Cons by simp
  qed
qed

lemma base64_alphabet_distinct: "distinct base64_alphabet"
  by (simp add: base64_alphabet_def)

lemma b64_index_b64: "n < 64 \<Longrightarrow> b64_index (b64 n) = n"
  unfolding b64_index_def b64_def
  by (rule index_of_nth[OF base64_alphabet_distinct]) (simp add: base64_alphabet_def)

lemma b64_in_alphabet: "n < 64 \<Longrightarrow> b64 n \<in> set base64_alphabet"
proof -
  assume "n < 64"
  moreover have "length base64_alphabet = 64" by (simp add: base64_alphabet_def)
  ultimately show ?thesis unfolding b64_def by (intro nth_mem) simp
qed

lemma unbase64_b64: "n < 64 \<Longrightarrow> unbase64 (b64 n) = Some n"
proof -
  assume n: "n < 64"
  have "CHR ''-'' \<notin> set base64_alphabet" "CHR ''_'' \<notin> set base64_alphabet"
    by (simp_all add: base64_alphabet_def)
  with b64_in_alphabet[OF n] have "b64 n \<noteq> CHR ''-''" "b64 n \<noteq> CHR ''_''" by metis+
  then show ?thesis using b64_in_alphabet[OF n] b64_index_b64[OF n] by (simp add: unbase64_def)
qed

lemma unbase64_equals: "unbase64 (CHR ''='') = None"
  by (simp add: unbase64_def base64_alphabet_def)

lemma alphabet_ascii: "c \<in> set base64_alphabet \<Longrightarrow> is_ascii c"
  by (auto simp: base64_alphabet_def is_ascii_def)

lemma base64_ascii: "list_all is_ascii (base64 bs)"
  by (induction bs rule: base64.induct)
    (simp_all add: alphabet_ascii b64_in_alphabet b64_lt, simp_all add: is_ascii_def)

lemma sextet_arith:
  fixes x y z :: nat
  assumes y: "y < 256" and z: "z < 256"
  shows "x div 4 * 4 + (x mod 4 * 16 + y div 16) div 16 = x"
    and "(x mod 4 * 16 + y div 16) mod 16 * 16 + (y mod 16 * 4 + z div 64) div 4 = y"
    and "(y mod 16 * 4 + z div 64) mod 4 * 64 + z mod 64 = z"
    and "(x mod 4 * 16 + y div 16) mod 16 * 16 + (y mod 16 * 4) div 4 = y"
    and "x div 4 * 4 + (x mod 4 * 16) div 16 = x"
proof -
  have y16: "y div 16 < 16" using y by (simp add: less_mult_imp_div_less)
  have z64: "z div 64 < 4" using z by (simp add: less_mult_imp_div_less)
  have d1: "(x mod 4 * 16 + y div 16) div 16 = x mod 4" using y16 by simp
  have m1: "(x mod 4 * 16 + y div 16) mod 16 = y div 16" using y16 by simp
  have d2: "(y mod 16 * 4 + z div 64) div 4 = y mod 16" using z64 by simp
  have m2: "(y mod 16 * 4 + z div 64) mod 4 = z div 64" using z64 by simp
  show "x div 4 * 4 + (x mod 4 * 16 + y div 16) div 16 = x" unfolding d1 by simp
  show "(x mod 4 * 16 + y div 16) mod 16 * 16 + (y mod 16 * 4 + z div 64) div 4 = y"
    unfolding m1 d2 by simp
  show "(y mod 16 * 4 + z div 64) mod 4 * 64 + z mod 64 = z" unfolding m2 by simp
  show "(x mod 4 * 16 + y div 16) mod 16 * 16 + (y mod 16 * 4) div 4 = y"
    unfolding m1 by simp
  show "x div 4 * 4 + (x mod 4 * 16) div 16 = x" by simp
qed

lemma sextets_to_bytes:
  fixes a b c :: byte
  shows "of_nat (unat a div 4 * 4 + (unat a mod 4 * 16 + unat b div 16) div 16) = a"
    and "of_nat ((unat a mod 4 * 16 + unat b div 16) mod 16 * 16 +
                 (unat b mod 16 * 4 + unat c div 64) div 4) = b"
    and "of_nat ((unat b mod 16 * 4 + unat c div 64) mod 4 * 64 + unat c mod 64) = c"
    and "of_nat ((unat a mod 4 * 16 + unat b div 16) mod 16 * 16 + (unat b mod 16 * 4) div 4) = b"
    and "of_nat (unat a div 4 * 4 + (unat a mod 4 * 16) div 16) = a"
proof -
  have b: "unat b < 256" and c: "unat c < 256"
    using unsigned_less[of b, where 'a=nat] unsigned_less[of c, where 'a=nat] by simp_all
  note ar = sextet_arith[OF b c]
  show "of_nat (unat a div 4 * 4 + (unat a mod 4 * 16 + unat b div 16) div 16) = a"
    unfolding ar(1) by simp
  show "of_nat ((unat a mod 4 * 16 + unat b div 16) mod 16 * 16 +
                 (unat b mod 16 * 4 + unat c div 64) div 4) = b"
    unfolding ar(2) by simp
  show "of_nat ((unat b mod 16 * 4 + unat c div 64) mod 4 * 64 + unat c mod 64) = c"
    unfolding ar(3) by simp
  show "of_nat ((unat a mod 4 * 16 + unat b div 16) mod 16 * 16 + (unat b mod 16 * 4) div 4) = b"
    unfolding ar(4) by simp
  show "of_nat (unat a div 4 * 4 + (unat a mod 4 * 16) div 16) = a"
    unfolding ar(5) by simp
qed

lemma sextets_quad:
  assumes "s0 < 64" "s1 < 64" "s2 < 64" "s3 < 64"
  shows "base64_sextets (b64 s0 # b64 s1 # b64 s2 # b64 s3 # rest) =
     s0 # s1 # s2 # s3 # base64_sextets rest"
  using assms by (simp add: unbase64_b64)

lemma sextets_triple:
  assumes "s0 < 64" "s1 < 64" "s2 < 64"
  shows "base64_sextets [b64 s0, b64 s1, b64 s2, CHR ''=''] = [s0, s1, s2]"
  using assms by (simp add: unbase64_b64 unbase64_equals)

lemma sextets_pair:
  assumes "s0 < 64" "s1 < 64"
  shows "base64_sextets [b64 s0, b64 s1, CHR ''='', CHR ''=''] = [s0, s1]"
  using assms by (simp add: unbase64_b64 unbase64_equals)

lemma base64_decode_base64: "base64_decode (base64 bs) = bs"
proof (induction bs rule: base64.induct)
  case (1 a b c rest)
  have "base64_sextets (base64 (a # b # c # rest)) =
      unat a div 4 # (unat a mod 4 * 16 + unat b div 16) #
      (unat b mod 16 * 4 + unat c div 64) # unat c mod 64 # base64_sextets (base64 rest)"
    unfolding base64.simps append.simps by (rule sextets_quad) (rule b64_lt)+
  then have "base64_decode (base64 (a # b # c # rest)) =
      of_nat (unat a div 4 * 4 + (unat a mod 4 * 16 + unat b div 16) div 16) #
      of_nat ((unat a mod 4 * 16 + unat b div 16) mod 16 * 16 +
              (unat b mod 16 * 4 + unat c div 64) div 4) #
      of_nat ((unat b mod 16 * 4 + unat c div 64) mod 4 * 64 + unat c mod 64) #
      base64_decode (base64 rest)"
    by (simp only: base64_decode_def sextets_bytes.simps)
  then show ?case unfolding sextets_to_bytes 1 .
next
  case (2 a b)
  have "base64_sextets (base64 [a, b]) =
      [unat a div 4, unat a mod 4 * 16 + unat b div 16, unat b mod 16 * 4]"
    unfolding base64.simps by (rule sextets_triple) (rule b64_lt)+
  then have "base64_decode (base64 [a, b]) =
      [of_nat (unat a div 4 * 4 + (unat a mod 4 * 16 + unat b div 16) div 16),
       of_nat ((unat a mod 4 * 16 + unat b div 16) mod 16 * 16 + (unat b mod 16 * 4) div 4)]"
    by (simp only: base64_decode_def sextets_bytes.simps)
  then show ?case unfolding sextets_to_bytes .
next
  case (3 a)
  have "base64_sextets (base64 [a]) = [unat a div 4, unat a mod 4 * 16]"
    unfolding base64.simps by (rule sextets_pair) (rule b64_lt)+
  then have "base64_decode (base64 [a]) =
      [of_nat (unat a div 4 * 4 + (unat a mod 4 * 16) div 16)]"
    by (simp only: base64_decode_def sextets_bytes.simps)
  then show ?case unfolding sextets_to_bytes .
next
  case 4
  show ?case by (simp add: base64_decode_def)
qed

lemma decode_base64_string_base64: "decode_base64_string rt (base64 bs) = bs"
  by (simp add: decode_base64_string_def base64_ascii base64_decode_base64)

lemma Buffer_from_base64: "Buffer_from rt (Some (JStr (base64 bs))) = Some bs"
  by (simp add: Buffer_from_def decode_base64_string_base64)

lemma utf8_decode_encode: "utf8_decode (TextEncoder_encode s) = s"
proof -
  have "\<And>c::char. char_of (unat (of_nat (of_char c) :: byte)) = c"
  proof -
    fix c :: char
    have "(of_char c :: nat) < 256" by simp
    then have "unat (of_nat (of_char c) :: byte) = of_char c"
      by (simp add: unat_of_nat)
    then show "char_of (unat (of_nat (of_char c) :: byte)) = c" by simp
  qed
  then show ?thesis by (simp add: utf8_decode_def TextEncoder_encode_def comp_def)
qed

lemma encrypt_envelope:
  "length masterKey = 32 \<Longrightarrow>
   encrypt cipher masterKey iv plaintext =
     Inr (JSON_stringify (encryptedData_json (sealed_data cipher masterKey iv plaintext)))"
  by (simp add: encrypt_def sealed_data_def Let_def split: prod.splits)

lemma decrypt_parsed:
  "JSON_parse rt ciphertext = Some j \<Longrightarrow>
   Buffer_from rt (json_field j ''iv'') = Some ivb \<Longrightarrow>
   Buffer_from rt (json_field j ''tag'') = Some tagb \<Longrightarrow>
   json_field j ''encrypted'' = Some (JStr e) \<Longrightarrow>
   decrypt cipher rt masterKey ciphertext =
     (if length masterKey \<noteq> 32 then Inl DecryptionFailed
      else case gcm_decrypt cipher masterKey ivb (decode_base64_string rt e) tagb of
             None \<Rightarrow> Inl DecryptionFailed
           | Some decrypted \<Rightarrow> Inr (utf8_decode decrypted))"
  by (simp add: decrypt_def)

lemma test_key_facts: "length test_key = 32" "take 2 test_key = [255, 255]"
  by (simp_all add: test_key_def numeral_2_eq_2)

lemma sealed_secret_data:
  "encryptedData_json (sealed_data test_cipher test_key test_iv ''secret'') = sealed_secret"
  by (simp add: encryptedData_json_def sealed_data_def test_cipher_def test_key_facts
      test_iv_def TextEncoder_encode_def sealed_secret_def b64_def base64_alphabet_def)

lemma malformed_envelope_fields:
  "JSON_parse (test_runtime malformed_text malformed_envelope) malformed_text =
     Some malformed_envelope"
  "Buffer_from (test_runtime malformed_text malformed_envelope)
     (json_field malformed_envelope ''iv'') = Some test_iv"
  "Buffer_from (test_runtime malformed_text malformed_envelope)
     (json_field malformed_envelope ''tag'') = Some [255, 255, 1, 1]"
  "json_field malformed_envelope ''encrypted'' = Some (JStr ''dGVy Y2Vz'')"
proof -
  show "JSON_parse (test_runtime malformed_text malformed_envelope) malformed_text =
      Some malformed_envelope"
    by (simp add: test_runtime_def parse_only_def)
  show "Buffer_from (test_runtime malformed_text malformed_envelope)
      (json_field malformed_envelope ''iv'') = Some test_iv"
    by (simp add: malformed_envelope_def Buffer_from_def fromArrayLike_def test_iv_def)
  show "Buffer_from (test_runtime malformed_text malformed_envelope)
      (json_field malformed_envelope ''tag'') = Some [255, 255, 1, 1]"
    by (simp add: malformed_envelope_def Buffer_from_def decode_base64_string_def is_ascii_def
        base64_decode_def unbase64_def base64_alphabet_def b64_index_def)
  show "json_field malformed_envelope ''encrypted'' = Some (JStr ''dGVy Y2Vz'')"
    by (simp add: malformed_envelope_def)
qed

lemma decode_spaced_ciphertext:
  "decode_base64_string rt ''dGVy Y2Vz'' = TextEncoder_encode ''terces''"
  "decode_base64_string rt ''dGVyY2Vz'' = TextEncoder_encode ''terces''"
  by (simp_all add: decode_base64_string_def is_ascii_def base64_decode_def unbase64_def
      base64_alphabet_def b64_index_def TextEncoder_encode_def)

lemma test_cipher_opens:
  "gcm_decrypt test_cipher test_key test_iv (TextEncoder_encode ''terces'') [255, 255, 1, 1] =
     Some (TextEncoder_encode ''secret'')"
  by (simp add: test_cipher_def test_key_facts test_iv_def TextEncoder_encode_def)

text \<open>
  Claim C9, as stated, fails on the code: \<open>decrypt\<close> opens envelopes that are malformed.
  The envelope whose nonce is an array of numbers, whose ciphertext has a space in it and
  whose tag is URL-safe base64 without padding is not the envelope that \<open>encrypt\<close> writes
  for the plaintext, and \<open>decrypt\<close> returns the plaintext from it all the same.
\<close>

theorem malformed_envelope_opens:
  "encrypt test_cipher test_key test_iv ''secret'' = Inr (JSON_stringify sealed_secret) \<and>
   malformed_envelope \<noteq> sealed_secret \<and>
   JSON_parse (test_runtime malformed_text malformed_envelope) malformed_text =
     Some malformed_envelope \<and>
   decrypt test_cipher (test_runtime malformed_text malformed_envelope) test_key malformed_text =
     Inr ''secret''"
proof (intro conjI)
  show "encrypt test_cipher test_key test_iv ''secret'' = Inr (JSON_stringify sealed_secret)"
    by (simp only: encrypt_envelope[OF test_key_facts(1)] sealed_secret_data)
  show "malformed_envelope \<noteq> sealed_secret"
    by (simp add: malformed_envelope_def sealed_secret_def)
  show "JSON_parse (test_runtime malformed_text malformed_envelope) malformed_text =
      Some malformed_envelope"
    by (rule malformed_envelope_fields(1))
  show "decrypt test_cipher (test_runtime malformed_text malformed_envelope) test_key
      malformed_text = Inr ''secret''"
    unfolding decrypt_parsed[OF malformed_envelope_fields] decode_spaced_ciphertext
      test_cipher_opens
    by (simp add: test_key_facts utf8_decode_encode)
qed

text \<open>
  Claim C9, amended. With a 32-byte key, \<open>encrypt\<close> returns the JSON text of an envelope that
  carries the nonce it was given, the ciphertext and the authentication tag, each as base64,
  and \<open>decrypt\<close> of that text returns the plaintext, provided the runtime reads the JSON text
  back and the cipher accepts its own ciphertext and tag under the same key and nonce.
  \<open>decrypt\<close> fails when the key is not 32 bytes long, when the text does not parse, when
  \<^verbatim>\<open>Buffer.from\<close> throws on the nonce or on the tag property (a missing property among them),
  when the ciphertext property is not a string, and when the cipher rejects the decoded
  nonce, ciphertext and tag, as it does when the tag does not verify. In every other case it
  returns a plaintext: the shape of the envelope is checked no further.
\<close>

theorem open_sealed_envelope:
  "(length masterKey = 32 \<and>
    JSON_parse rt
      (JSON_stringify (encryptedData_json (sealed_data cipher masterKey iv plaintext))) =
      Some (encryptedData_json (sealed_data cipher masterKey iv plaintext)) \<and>
    gcm_decrypt cipher masterKey iv
      (fst (gcm_encrypt cipher masterKey iv (TextEncoder_encode plaintext)))
      (snd (gcm_encrypt cipher masterKey iv (TextEncoder_encode plaintext))) =
      Some (TextEncoder_encode plaintext)
    \<longrightarrow>
      (\<exists>envelope. encrypt cipher masterKey iv plaintext = Inr envelope \<and>
         envelope = JSON_stringify (encryptedData_json
                      (sealed_data cipher masterKey iv plaintext)) \<and>
         Buffer_from rt (Some (JStr (enc_iv (sealed_data cipher masterKey iv plaintext)))) =
           Some iv \<and>
         decrypt cipher rt masterKey envelope = Inr plaintext)) \<and>
   (length masterKey \<noteq> 32 \<longrightarrow>
      decrypt cipher rt masterKey ciphertext = Inl DecryptionFailed) \<and>
   (JSON_parse rt ciphertext = None \<longrightarrow>
      decrypt cipher rt masterKey ciphertext = Inl DecryptionFailed) \<and>
   (JSON_parse rt ciphertext = Some j \<and>
    (Buffer_from rt (json_field j ''iv'') = None \<or>
     Buffer_from rt (json_field j ''tag'') = None \<or>
     (\<forall>e. json_field j ''encrypted'' \<noteq> Some (JStr e)))
      \<longrightarrow> decrypt cipher rt masterKey ciphertext = Inl DecryptionFailed) \<and>
   (JSON_parse rt ciphertext = Some j \<and>
    Buffer_from rt (json_field j ''iv'') = Some ivb \<and>
    Buffer_from rt (json_field j ''tag'') = Some tagb \<and>
    json_field j ''encrypted'' = Some (JStr e) \<and>
    gcm_decrypt cipher masterKey ivb (decode_base64_string rt e) tagb = None
      \<longrightarrow> decrypt cipher rt masterKey ciphertext = Inl DecryptionFailed) \<and>
   (length masterKey = 32 \<and>
    JSON_parse rt ciphertext = Some j \<and>
    Buffer_from rt (json_field j ''iv'') = Some ivb \<and>
    Buffer_from rt (json_field j ''tag'') = Some tagb \<and>
    json_field j ''encrypted'' = Some (JStr e) \<and>
    gcm_decrypt cipher masterKey ivb (decode_base64_string rt e) tagb \<noteq> None
      \<longrightarrow> (\<exists>p. decrypt cipher rt masterKey ciphertext = Inr p))"
proof (intro conjI impI)
  assume h: "length masterKey = 32 \<and>
    JSON_parse rt
      (JSON_stringify (encryptedData_json (sealed_data cipher masterKey iv plaintext))) =
      Some (encryptedData_json (sealed_data cipher masterKey iv plaintext)) \<and>
    gcm_decrypt cipher masterKey iv
      (fst (gcm_encrypt cipher masterKey iv (TextEncoder_encode plaintext)))
      (snd (gcm_encrypt cipher masterKey iv (TextEncoder_encode plaintext))) =
      Some (TextEncoder_encode plaintext)"
  let ?data = "sealed_data cipher masterKey iv plaintext"
  let ?env = "JSON_stringify (encryptedData_json ?data)"
  have e: "encrypt cipher masterKey iv plaintext = Inr ?env"
    using h by (simp add: encrypt_envelope)
  have iv: "Buffer_from rt (Some (JStr (enc_iv ?data))) = Some iv"
    by (simp add: sealed_data_def Buffer_from_base64)
  have f: "Buffer_from rt (json_field (encryptedData_json ?data) ''iv'') = Some iv"
    "Buffer_from rt (json_field (encryptedData_json ?data) ''tag'') =
       Some (snd (gcm_encrypt cipher masterKey iv (TextEncoder_encode plaintext)))"
    "json_field (encryptedData_json ?data) ''encrypted'' =
       Some (JStr (base64 (fst (gcm_encrypt cipher masterKey iv (TextEncoder_encode plaintext)))))"
    by (simp_all add: encryptedData_json_def sealed_data_def Buffer_from_base64
        del: base64.simps)
  from h have p: "JSON_parse rt ?env = Some (encryptedData_json ?data)" by simp
  have d: "decrypt cipher rt masterKey ?env = Inr plaintext"
    unfolding decrypt_parsed[OF p f] decode_base64_string_base64
    using h by (simp add: utf8_decode_encode)
  show "\<exists>envelope. encrypt cipher masterKey iv plaintext = Inr envelope \<and>
         envelope = JSON_stringify (encryptedData_json
                      (sealed_data cipher masterKey iv plaintext)) \<and>
         Buffer_from rt (Some (JStr (enc_iv (sealed_data cipher masterKey iv plaintext)))) =
           Some iv \<and>
         decrypt cipher rt masterKey envelope = Inr plaintext"
    using e iv d by blast
next
  assume "length masterKey \<noteq> 32"
  then show "decrypt cipher rt masterKey ciphertext = Inl DecryptionFailed"
    by (simp add: decrypt_def split: option.splits json.splits)
next
  assume "JSON_parse rt ciphertext = None"
  then show "decrypt cipher rt masterKey ciphertext = Inl DecryptionFailed"
    by (simp add: decrypt_def)
next
  assume a: "JSON_parse rt ciphertext = Some j \<and>
    (Buffer_from rt (json_field j ''iv'') = None \<or>
     Buffer_from rt (json_field j ''tag'') = None \<or>
     (\<forall>e. json_field j ''encrypted'' \<noteq> Some (JStr e)))"
  then show "decrypt cipher rt masterKey ciphertext = Inl DecryptionFailed"
    by (auto simp: decrypt_def split: option.splits json.splits)
next
  assume "JSON_parse rt ciphertext = Some j \<and>
    Buffer_from rt (json_field j ''iv'') = Some ivb \<and>
    Buffer_from rt (json_field j ''tag'') = Some tagb \<and>
    json_field j ''encrypted'' = Some (JStr e) \<and>
    gcm_decrypt cipher masterKey ivb (decode_base64_string rt e) tagb = None"
  then show "decrypt cipher rt masterKey ciphertext = Inl DecryptionFailed"
    by (simp add: decrypt_parsed)
next
  assume "length masterKey = 32 \<and>
    JSON_parse rt ciphertext = Some j \<and>
    Buffer_from rt (json_field j ''iv'') = Some ivb \<and>
    Buffer_from rt (json_field j ''tag'') = Some tagb \<and>
    json_field j ''encrypted'' = Some (JStr e) \<and>
    gcm_decrypt cipher masterKey ivb (decode_base64_string rt e) tagb \<noteq> None"
  then show "\<exists>p. decrypt cipher rt masterKey ciphertext = Inr p"
    by (auto simp: decrypt_parsed)
qed

theorem open_sealed_envelope_witness:
  "length test_key = 32 \<and>
   encrypt test_cipher test_key test_iv ''secret'' = Inr (JSON_stringify sealed_secret) \<and>
   decrypt test_cipher (test_runtime (JSON_stringify sealed_secret) sealed_secret) test_key
     (JSON_stringify sealed_secret) = Inr ''secret'' \<and>
   decrypt test_cipher (test_runtime (JSON_stringify sealed_secret) sealed_secret)
     (take 31 test_key) (JSON_stringify sealed_secret) = Inl DecryptionFailed \<and>
   decrypt test_cipher (test_runtime ''{}'' (JObj [])) test_key ''not json'' =
     Inl DecryptionFailed \<and>
   decrypt test_cipher (test_runtime ''{}'' (JObj [])) test_key ''{}'' = Inl DecryptionFailed \<and>
   decrypt test_cipher (test_runtime (JSON_stringify tampered_secret) tampered_secret) test_key
     (JSON_stringify tampered_secret) = Inl DecryptionFailed \<and>
   (\<exists>p. decrypt test_cipher (test_runtime malformed_text malformed_envelope) test_key
          malformed_text = Inr p)"
proof -
  let ?data = "sealed_data test_cipher test_key test_iv ''secret''"
  let ?text = "JSON_stringify sealed_secret"
  let ?rt = "test_runtime ?text sealed_secret"
  note k = test_key_facts(1)
  have p: "JSON_parse ?rt (JSON_stringify (encryptedData_json ?data)) =
      Some (encryptedData_json ?data)"
    by (simp add: sealed_secret_data test_runtime_def parse_only_def)
  have g: "gcm_decrypt test_cipher test_key test_iv
      (fst (gcm_encrypt test_cipher test_key test_iv (TextEncoder_encode ''secret'')))
      (snd (gcm_encrypt test_cipher test_key test_iv (TextEncoder_encode ''secret''))) =
      Some (TextEncoder_encode ''secret'')"
    by (simp add: test_cipher_def)
  from open_sealed_envelope[where masterKey = test_key and rt = "?rt"
      and cipher = test_cipher and iv = test_iv and plaintext = "''secret''"] k p g
  have "\<exists>envelope. encrypt test_cipher test_key test_iv ''secret'' = Inr envelope \<and>
      envelope = JSON_stringify (encryptedData_json ?data) \<and>
      decrypt test_cipher ?rt test_key envelope = Inr ''secret''"
    by blast
  then have a: "encrypt test_cipher test_key test_iv ''secret'' = Inr ?text \<and>
      decrypt test_cipher ?rt test_key ?text = Inr ''secret''"
    by (simp only: sealed_secret_data) blast
  have "length (take 31 test_key) \<noteq> 32" by (simp add: test_key_def)
  with open_sealed_envelope[where masterKey = "take 31 test_key" and rt = "?rt"
      and cipher = test_cipher and ciphertext = "?text"]
  have b: "decrypt test_cipher ?rt (take 31 test_key) ?text = Inl DecryptionFailed"
    by blast
  let ?rt2 = "test_runtime ''{}'' (JObj [])"
  have "JSON_parse ?rt2 ''not json'' = None" by (simp add: test_runtime_def parse_only_def)
  with open_sealed_envelope[where rt = "?rt2" and ciphertext = "''not json''"
      and cipher = test_cipher and masterKey = test_key]
  have c: "decrypt test_cipher ?rt2 test_key ''not json'' = Inl DecryptionFailed"
    by blast
  have "JSON_parse ?rt2 ''{}'' = Some (JObj [])" by (simp add: test_runtime_def parse_only_def)
  moreover have "Buffer_from ?rt2 (json_field (JObj []) ''iv'') = None"
    by (simp add: Buffer_from_def)
  ultimately have d: "decrypt test_cipher ?rt2 test_key ''{}'' = Inl DecryptionFailed"
    using open_sealed_envelope[where rt = "?rt2" and ciphertext = "''{}''" and j = "JObj []"
      and cipher = test_cipher and masterKey = test_key]
    by blast
  let ?rt3 = "test_runtime (JSON_stringify tampered_secret) tampered_secret"
  have t1: "JSON_parse ?rt3 (JSON_stringify tampered_secret) = Some tampered_secret"
    by (simp add: test_runtime_def parse_only_def)
  have t2: "Buffer_from ?rt3 (json_field tampered_secret ''iv'') = Some test_iv"
    by (simp add: tampered_secret_def Buffer_from_def decode_base64_string_def is_ascii_def
        base64_decode_def unbase64_def base64_alphabet_def b64_index_def test_iv_def)
  have t3: "Buffer_from ?rt3 (json_field tampered_secret ''tag'') = Some [0, 0, 0, 0]"
    by (simp add: tampered_secret_def Buffer_from_def decode_base64_string_def is_ascii_def
        base64_decode_def unbase64_def base64_alphabet_def b64_index_def)
  have t4: "json_field tampered_secret ''encrypted'' = Some (JStr ''dGVyY2Vz'')"
    by (simp add: tampered_secret_def)
  have t5: "gcm_decrypt test_cipher test_key test_iv (decode_base64_string ?rt3 ''dGVyY2Vz'')
      [0, 0, 0, 0] = None"
    by (simp add: test_cipher_def test_key_facts test_iv_def)
  from open_sealed_envelope[where rt = "?rt3" and ciphertext = "JSON_stringify tampered_secret"
      and j = tampered_secret and cipher = test_cipher and masterKey = test_key
      and ivb = test_iv and tagb = "[0, 0, 0, 0]" and e = "''dGVyY2Vz''"] t1 t2 t3 t4 t5
  have e: "decrypt test_cipher ?rt3 test_key (JSON_stringify tampered_secret) =
      Inl DecryptionFailed"
    by blast
  let ?rt4 = "test_runtime malformed_text malformed_envelope"
  have m: "gcm_decrypt test_cipher test_key test_iv (decode_base64_string ?rt4 ''dGVy Y2Vz'')
      [255, 255, 1, 1] \<noteq> None"
    by (simp only: decode_spaced_ciphertext test_cipher_opens) simp
  from open_sealed_envelope[where rt = "?rt4" and ciphertext = malformed_text
      and j = malformed_envelope and cipher = test_cipher and masterKey = test_key
      and ivb = test_iv and tagb = "[255, 255, 1, 1]" and e = "''dGVy Y2Vz''"]
    k malformed_envelope_fields m
  have f: "\<exists>p. decrypt test_cipher ?rt4 test_key malformed_text = Inr p"
    by blast
  from k a b c d e f show ?thesis by blast
qed

end
